theory Spec2Isabelle
  imports Main "HOL-Library.Word"
begin

unbundle bit_operations_syntax

section \<open>Common conventions\<close>

text \<open>
  The embedding follows \<^verbatim>\<open>src/libumockdev-preload.c\<close>. A C pointer is an address
  (a natural number, \<open>NULL\<close> being 0); objects reached through a pointer live in an explicit
  store. A call that ends the process (\<^verbatim>\<open>abort\<close>, a failed \<^verbatim>\<open>assert\<close>,
  \<^verbatim>\<open>exit\<close>) or that leaves defined behaviour is a value of type \<open>failure\<close>,
  returned as \<open>Inl\<close>.
\<close>

type_synonym ptr = nat

definition NULL :: ptr where
  "NULL = 0"

datatype failure = Aborted | Exited int | Undefined_behaviour

section \<open>fd -> pointer map\<close>

definition FD_MAP_MAX :: nat where
  "FD_MAP_MAX = 50"

text \<open>
  \<^verbatim>\<open>typedef struct { int set[FD_MAP_MAX]; int fd[FD_MAP_MAX]; const void *data[FD_MAP_MAX]; } fd_map;\<close>
  The three arrays are lists; \<open>fd_map_wf\<close> says that each has the \<open>FD_MAP_MAX\<close> cells of
  the C arrays. The loops below never index past \<open>FD_MAP_MAX\<close>.
\<close>

record fd_map =
  fm_set :: "int list"
  fm_fd :: "int list"
  fm_data :: "ptr list"

definition fd_map_wf :: "fd_map \<Rightarrow> bool" where
  "fd_map_wf m \<longleftrightarrow>
     length (fm_set m) = FD_MAP_MAX \<and> length (fm_fd m) = FD_MAP_MAX \<and>
     length (fm_data m) = FD_MAP_MAX"

text \<open>A static \<open>fd_map\<close> starts zero-initialised.\<close>

definition fd_map_zero :: fd_map where
  "fd_map_zero =
     \<lparr>fm_set = replicate FD_MAP_MAX 0, fm_fd = replicate FD_MAP_MAX 0,
      fm_data = replicate FD_MAP_MAX NULL\<rparr>"

text \<open>
  \<open>fd_map_add\<close>: the loop \<^verbatim>\<open>for (i = 0; i < FD_MAP_MAX; ++i)\<close> claims the first cell whose
  \<open>set\<close> flag is 0; falling out of the loop is \<^verbatim>\<open>abort()\<close>.
\<close>

function fd_map_add_loop :: "nat \<Rightarrow> fd_map \<Rightarrow> int \<Rightarrow> ptr \<Rightarrow> failure + fd_map" where
  "fd_map_add_loop i m fd d =
     (if i < FD_MAP_MAX then
        (if fm_set m ! i = 0 then
           Inr (m\<lparr>fm_set := (fm_set m)[i := 1], fm_fd := (fm_fd m)[i := fd],
                   fm_data := (fm_data m)[i := d]\<rparr>)
         else fd_map_add_loop (Suc i) m fd d)
      else Inl Aborted)"
  by pat_completeness auto
termination
  by (relation "measure (\<lambda>(i, m, fd, d). FD_MAP_MAX - i)") auto

declare fd_map_add_loop.simps [simp del]

definition fd_map_add :: "fd_map \<Rightarrow> int \<Rightarrow> ptr \<Rightarrow> failure + fd_map" where
  "fd_map_add m fd d = fd_map_add_loop 0 m fd d"

text \<open>
  \<open>fd_map_remove\<close>: clears the \<open>set\<close> flag of the first cell that is set and holds the
  descriptor; \<^verbatim>\<open>abort()\<close> when there is none.
\<close>

function fd_map_remove_loop :: "nat \<Rightarrow> fd_map \<Rightarrow> int \<Rightarrow> failure + fd_map" where
  "fd_map_remove_loop i m fd =
     (if i < FD_MAP_MAX then
        (if fm_set m ! i \<noteq> 0 \<and> fm_fd m ! i = fd then
           Inr (m\<lparr>fm_set := (fm_set m)[i := 0]\<rparr>)
         else fd_map_remove_loop (Suc i) m fd)
      else Inl Aborted)"
  by pat_completeness auto
termination
  by (relation "measure (\<lambda>(i, m, fd). FD_MAP_MAX - i)") auto

declare fd_map_remove_loop.simps [simp del]

definition fd_map_remove :: "fd_map \<Rightarrow> int \<Rightarrow> failure + fd_map" where
  "fd_map_remove m fd = fd_map_remove_loop 0 m fd"

text \<open>
  \<open>fd_map_get\<close> returns the C return value (1 or 0) together with the pointer it stores in
  \<^verbatim>\<open>*data_out\<close> (the payload, or \<open>NULL\<close> when the descriptor is absent). A caller that
  passes \<^verbatim>\<open>data_out = NULL\<close> reads the first component only.
\<close>

function fd_map_get_loop :: "nat \<Rightarrow> fd_map \<Rightarrow> int \<Rightarrow> int \<times> ptr" where
  "fd_map_get_loop i m fd =
     (if i < FD_MAP_MAX then
        (if fm_set m ! i \<noteq> 0 \<and> fm_fd m ! i = fd then (1, fm_data m ! i)
         else fd_map_get_loop (Suc i) m fd)
      else (0, NULL))"
  by pat_completeness auto
termination
  by (relation "measure (\<lambda>(i, m, fd). FD_MAP_MAX - i)") auto

declare fd_map_get_loop.simps [simp del]

definition fd_map_get :: "fd_map \<Rightarrow> int \<Rightarrow> int \<times> ptr" where
  "fd_map_get m fd = fd_map_get_loop 0 m fd"

text \<open>The number of cells in use.\<close>

definition fd_map_count :: "fd_map \<Rightarrow> nat" where
  "fd_map_count m = length (filter (\<lambda>s. s \<noteq> 0) (fm_set m))"

section \<open>The C library and the kernel, as the preload library sees them\<close>

text \<open>
  A call into the C library is read from a \<open>world\<close>: it yields the call's result and what
  the call does to \<open>errno\<close> (\<open>None\<close>: left alone, \<open>Some e\<close>: set to \<open>e\<close>), on success as
  well as on failure. Strings are C strings (their bytes before the terminating NUL).
  The numeric constants are those of the Linux headers.
\<close>

type_synonym errno = int
type_synonym dev_t = "64 word"
type_synonym mode_t = "32 word"

definition ENAMETOOLONG :: errno where
  "ENAMETOOLONG = 36"

definition PATH_MAX :: nat where
  "PATH_MAX = 4096"

definition S_IFMT :: mode_t where "S_IFMT = 0xF000"
definition S_IFLNK :: mode_t where "S_IFLNK = 0xA000"
definition S_IFREG :: mode_t where "S_IFREG = 0x8000"
definition S_IFBLK :: mode_t where "S_IFBLK = 0x6000"
definition S_IFDIR :: mode_t where "S_IFDIR = 0x4000"
definition S_IFCHR :: mode_t where "S_IFCHR = 0x2000"
definition S_ISVTX :: mode_t where "S_ISVTX = 0x200"

definition S_ISLNK :: "mode_t \<Rightarrow> bool" where "S_ISLNK m \<longleftrightarrow> m AND S_IFMT = S_IFLNK"
definition S_ISDIR :: "mode_t \<Rightarrow> bool" where "S_ISDIR m \<longleftrightarrow> m AND S_IFMT = S_IFDIR"
definition S_ISCHR :: "mode_t \<Rightarrow> bool" where "S_ISCHR m \<longleftrightarrow> m AND S_IFMT = S_IFCHR"
definition S_ISBLK :: "mode_t \<Rightarrow> bool" where "S_ISBLK m \<longleftrightarrow> m AND S_IFMT = S_IFBLK"

record stat =
  st_mode :: mode_t
  st_rdev :: dev_t

record world =
  getenv :: "string \<Rightarrow> string option"
  libc_access :: "string \<Rightarrow> bool \<times> errno option"
  libc_fstat :: "int \<Rightarrow> stat option \<times> errno option"
  libc_readlink :: "string \<Rightarrow> string option \<times> errno option"
  libc_sscanf_ii :: "string \<Rightarrow> (int \<times> int) option \<times> errno option"
  libc_atoi :: "string \<Rightarrow> int"
  libc_fopen_ok :: "string \<Rightarrow> bool"

text \<open>
  \<open>libc_access w p\<close>: the C library's \<^verbatim>\<open>access(p, F_OK)\<close> returns 0 (\<open>True\<close>) or -1
  (\<open>False\<close>). \<open>libc_fstat w fd\<close>: the \<^verbatim>\<open>struct stat\<close> filled in, or \<open>None\<close> when \<^verbatim>\<open>fstat\<close>
  returns -1. \<open>libc_readlink w p\<close>: the text of the link, or \<open>None\<close> when the C library's
  \<^verbatim>\<open>readlink\<close> returns -1; a call with a buffer of \<open>n\<close> bytes places the first \<open>n\<close> bytes
  of the text and returns their number. \<open>libc_sscanf_ii w s\<close>: the two integers
  \<^verbatim>\<open>sscanf(s, "%i:%i", ...)\<close> converts, when it returns 2, and what the call does to
  \<open>errno\<close> (glibc sets \<open>ERANGE\<close> when a number is out of range). \<open>libc_atoi\<close> is \<^verbatim>\<open>atoi\<close>;
  \<open>libc_fopen_ok w p\<close> says whether the C library's \<^verbatim>\<open>fopen(p, ...)\<close> returns a stream.

  The source file defines \<^verbatim>\<open>access\<close>, \<^verbatim>\<open>readlink\<close> and \<^verbatim>\<open>fopen\<close> itself: where it calls
  them, it calls its own wrappers, and only a pointer obtained from \<^verbatim>\<open>get_libc_func\<close>
  reaches the C library. \<^verbatim>\<open>fstat\<close> is not wrapped.
\<close>

definition errno_after :: "errno option \<Rightarrow> errno \<Rightarrow> errno" where
  "errno_after u e = (case u of None \<Rightarrow> e | Some e' \<Rightarrow> e')"

text \<open>\<^verbatim>\<open>strncmp(s, t, n) == 0\<close> on C strings.\<close>

definition strncmp_eq :: "string \<Rightarrow> string \<Rightarrow> nat \<Rightarrow> bool" where
  "strncmp_eq s t n \<longleftrightarrow> take n s = take n t"

text \<open>\<open>dev_of_fd\<close>: the rdev of a descriptor, 0 when it is no device; result and \<open>errno\<close>.\<close>

definition dev_of_fd :: "world \<Rightarrow> int \<Rightarrow> errno \<Rightarrow> dev_t \<times> errno" where
  "dev_of_fd w fd e =
     (let orig_errno = e;
          (ret, u) = libc_fstat w fd;
          e1 = errno_after u e;
          e2 = orig_errno
      in case ret of
           None \<Rightarrow> (0, e2)
         | Some st \<Rightarrow>
             if S_ISCHR (st_mode st) \<or> S_ISBLK (st_mode st) then (st_rdev st, e2) else (0, e2))"

section \<open>Wrappers for accessing files\<close>

text \<open>
  A pointer to a path is \<open>NULL\<close>, the static buffer \<^verbatim>\<open>buf\<close> of \<open>trap_path\<close>, or storage
  apart from that buffer, holding the given string. The state of the process that these
  functions share is \<open>errno\<close> and the C string held in that static buffer (its 8192 bytes
  start zeroed). \<open>string_at\<close> reads the string a pointer points to.
\<close>

datatype cstr = Null | Static_buf | Str string

record proc =
  errno :: errno
  trap_buf :: string

definition string_at :: "proc \<Rightarrow> cstr \<Rightarrow> string" where
  "string_at s p = (case p of Null \<Rightarrow> [] | Static_buf \<Rightarrow> trap_buf s | Str x \<Rightarrow> x)"

definition sizeof_buf :: nat where
  "sizeof_buf = PATH_MAX * 2"

text \<open>
  \<^verbatim>\<open>strcpy(buf + off, src)\<close> on the C string \<open>old\<close> held in \<^verbatim>\<open>buf\<close>: bytes written behind
  the terminating NUL do not change the string.
\<close>

definition strcpy_at :: "nat \<Rightarrow> string \<Rightarrow> string \<Rightarrow> string" where
  "strcpy_at off src old = (if off \<le> length old then take off old @ src else old)"

text \<open>
  \<open>trap_path\<close>, \<open>path_exists\<close> and the wrapper \<open>access\<close> (\<^verbatim>\<open>WRAP_2ARGS(int, -1, access, int)\<close>)
  call each other: \<open>path_exists\<close> calls \<^verbatim>\<open>access\<close>, which this file defines, and that
  wrapper calls \<open>trap_path\<close> again, on the same static buffer. The recursion need not end,
  so the three functions take fuel, which a call of \<open>path_exists\<close> uses up: the result
  \<open>None\<close> says that the fuel did not suffice. A result \<open>Some (Inl f)\<close> is a failure,
  \<open>Some (Inr (r, s))\<close> the returned value and the state.

  In \<open>trap_path\<close>, a write past the end of \<^verbatim>\<open>buf\<close> is undefined behaviour: the length
  check of the source covers \<open><root><path>\<close>, not \<open><root>/disabled\<close>. When the argument
  is the static buffer itself, \<^verbatim>\<open>strcpy(buf + prefix_len, path)\<close> copies between
  overlapping objects; with \<open>prefix_len = 0\<close> it copies the string onto itself, which leaves
  it as it is.
\<close>

function trap_path :: "nat \<Rightarrow> world \<Rightarrow> cstr \<Rightarrow> proc \<Rightarrow> (failure + cstr \<times> proc) option"
  and path_exists :: "nat \<Rightarrow> world \<Rightarrow> cstr \<Rightarrow> proc \<Rightarrow> (failure + int \<times> proc) option"
  and access :: "nat \<Rightarrow> world \<Rightarrow> cstr \<Rightarrow> int \<Rightarrow> proc \<Rightarrow> (failure + int \<times> proc) option"
where
  "trap_path n w path s =
     (if path = Null then Some (Inr (path, s))
      else
        (case getenv w ''UMOCKDEV_DIR'' of
           None \<Rightarrow> Some (Inr (path, s))
         | Some prefix \<Rightarrow>
             if \<not> (strncmp_eq (string_at s path) ''/dev/'' 5 \<or> string_at s path = ''/dev'') \<and>
                \<not> strncmp_eq (string_at s path) ''/sys/'' 5 \<and> string_at s path \<noteq> ''/sys''
             then Some (Inr (path, s))
             else
               let check_exist =
                     (strncmp_eq (string_at s path) ''/dev/'' 5 \<or> string_at s path = ''/dev'');
                   path_len = length (string_at s path);
                   prefix_len = length prefix
               in if path_len + prefix_len \<ge> sizeof_buf
                  then Some (Inr (Null, s\<lparr>errno := ENAMETOOLONG\<rparr>))
                  else if prefix_len + length ''/disabled'' + 1 > sizeof_buf
                  then Some (Inl Undefined_behaviour)
                  else
                    (case path_exists n w Static_buf
                            (s\<lparr>trap_buf := strcpy_at prefix_len ''/disabled''
                                             (strcpy_at 0 prefix (trap_buf s))\<rparr>) of
                       None \<Rightarrow> None
                     | Some (Inl f) \<Rightarrow> Some (Inl f)
                     | Some (Inr (disabled, s2)) \<Rightarrow>
                         if disabled = 0 then Some (Inr (path, s2))
                         else if path = Static_buf \<and> prefix_len \<noteq> 0
                         then Some (Inl Undefined_behaviour)
                         else
                           let s3 = (if path = Static_buf then s2
                                     else s2\<lparr>trap_buf :=
                                            strcpy_at prefix_len (string_at s2 path) (trap_buf s2)\<rparr>)
                           in if check_exist then
                                (case path_exists n w Static_buf s3 of
                                   None \<Rightarrow> None
                                 | Some (Inl f) \<Rightarrow> Some (Inl f)
                                 | Some (Inr (res, s4)) \<Rightarrow>
                                     if res < 0 then Some (Inr (path, s4))
                                     else Some (Inr (Static_buf, s4)))
                              else Some (Inr (Static_buf, s3)))))"
| "path_exists 0 w path s = None"
| "path_exists (Suc n) w path s =
     (let orig_errno = errno s
      in case access n w path 0 s of
           None \<Rightarrow> None
         | Some (Inl f) \<Rightarrow> Some (Inl f)
         | Some (Inr (res, s1)) \<Rightarrow> Some (Inr (res, s1\<lparr>errno := orig_errno\<rparr>)))"
| "access n w path mode s =
     (case trap_path n w path s of
        None \<Rightarrow> None
      | Some (Inl f) \<Rightarrow> Some (Inl f)
      | Some (Inr (p, s1)) \<Rightarrow>
          if p = Null then Some (Inr (- 1, s1))
          else
            (let (ok, u) = libc_access w (string_at s1 p)
             in Some (Inr (if ok then 0 else - 1, s1\<lparr>errno := errno_after u (errno s1)\<rparr>))))"
  by pat_completeness auto
termination
  by (relation "measure (\<lambda>x. case x of
        Inl (n, w, path, s) \<Rightarrow> 3 * n + 1
      | Inr (Inl (n, w, path, s)) \<Rightarrow> 3 * n
      | Inr (Inr (n, w, path, mode, s)) \<Rightarrow> 3 * n + 2)") auto

declare trap_path.simps [simp del] path_exists.simps [simp del] access.simps [simp del]

text \<open>
  The wrapper templates \<^verbatim>\<open>WRAP_1ARG\<close>, \<^verbatim>\<open>WRAP_2ARGS\<close>, \<^verbatim>\<open>WRAP_3ARGS\<close>. \<open>fn\<close> is the C
  library's function of that name, found by \<^verbatim>\<open>get_libc_func\<close>; it reads the string at the
  pointer that \<open>trap_path\<close> returned.
\<close>

definition WRAP_1ARG ::
  "nat \<Rightarrow> world \<Rightarrow> (string \<Rightarrow> 'r \<times> errno option) \<Rightarrow> 'r \<Rightarrow> cstr \<Rightarrow> proc
     \<Rightarrow> (failure + 'r \<times> proc) option" where
  "WRAP_1ARG n w fn failret path s =
     (case trap_path n w path s of
        None \<Rightarrow> None
      | Some (Inl f) \<Rightarrow> Some (Inl f)
      | Some (Inr (p, s1)) \<Rightarrow>
          if p = Null then Some (Inr (failret, s1))
          else
            (let (r, u) = fn (string_at s1 p)
             in Some (Inr (r, s1\<lparr>errno := errno_after u (errno s1)\<rparr>))))"

definition WRAP_2ARGS ::
  "nat \<Rightarrow> world \<Rightarrow> (string \<Rightarrow> 'a \<Rightarrow> 'r \<times> errno option) \<Rightarrow> 'r \<Rightarrow> cstr \<Rightarrow> 'a \<Rightarrow> proc
     \<Rightarrow> (failure + 'r \<times> proc) option" where
  "WRAP_2ARGS n w fn failret path arg2 s =
     (case trap_path n w path s of
        None \<Rightarrow> None
      | Some (Inl f) \<Rightarrow> Some (Inl f)
      | Some (Inr (p, s1)) \<Rightarrow>
          if p = Null then Some (Inr (failret, s1))
          else
            (let (r, u) = fn (string_at s1 p) arg2
             in Some (Inr (r, s1\<lparr>errno := errno_after u (errno s1)\<rparr>))))"

definition WRAP_3ARGS ::
  "nat \<Rightarrow> world \<Rightarrow> (string \<Rightarrow> 'a \<Rightarrow> 'b \<Rightarrow> 'r \<times> errno option) \<Rightarrow> 'r \<Rightarrow> cstr \<Rightarrow> 'a \<Rightarrow> 'b \<Rightarrow> proc
     \<Rightarrow> (failure + 'r \<times> proc) option" where
  "WRAP_3ARGS n w fn failret path arg2 arg3 s =
     (case trap_path n w path s of
        None \<Rightarrow> None
      | Some (Inl f) \<Rightarrow> Some (Inl f)
      | Some (Inr (p, s1)) \<Rightarrow>
          if p = Null then Some (Inr (failret, s1))
          else
            (let (r, u) = fn (string_at s1 p) arg2 arg3
             in Some (Inr (r, s1\<lparr>errno := errno_after u (errno s1)\<rparr>))))"

text \<open>
  Two of the wrappers the source makes from these templates.
  \<^verbatim>\<open>WRAP_2ARGS(int, -1, stat, struct stat *)\<close> (and likewise \<^verbatim>\<open>stat64\<close>, \<^verbatim>\<open>lstat\<close>,
  \<^verbatim>\<open>lstat64\<close>): \<open>fn\<close> is the C library's function, which from the path and the caller's
  \<^verbatim>\<open>struct stat\<close> gives its return value and the structure afterwards; on failure the
  wrapper returns -1 and the structure as it was.
  \<^verbatim>\<open>WRAP_3ARGS(ssize_t, -1, readlink, char *, size_t)\<close>: the result is the text placed in
  the caller's buffer, at most \<open>bufsiz\<close> bytes of the link (the return value is its length),
  or \<open>None\<close> for -1.
\<close>

definition stat ::
  "nat \<Rightarrow> world \<Rightarrow> (string \<Rightarrow> stat \<Rightarrow> (int \<times> stat) \<times> errno option) \<Rightarrow> cstr \<Rightarrow> stat \<Rightarrow> proc
     \<Rightarrow> (failure + (int \<times> stat) \<times> proc) option" where
  "stat n w fn path st s = WRAP_2ARGS n w fn (- 1, st) path st s"

definition readlink ::
  "nat \<Rightarrow> world \<Rightarrow> cstr \<Rightarrow> nat \<Rightarrow> proc \<Rightarrow> (failure + string option \<times> proc) option" where
  "readlink n w path bufsiz s =
     WRAP_3ARGS n w
       (\<lambda>p (buf :: unit) sz. (map_option (take sz) (fst (libc_readlink w p)), snd (libc_readlink w p)))
       None path () bufsiz s"

text \<open>
  \<open>get_rdev\<close>. \<open>link\<close> is the function's static buffer of \<open>PATH_MAX\<close> bytes, which
  \<^verbatim>\<open>readlink\<close> fills from the start without terminating it: \<open>link0\<close> is its content at
  entry and the new content is returned. \<^verbatim>\<open>sscanf\<close> reads it as a C string, up to
  the first NUL, after \<open>errno\<close> has been restored. The path is composed in the function's own
  buffer, taken to be large enough; the loop that replaces \<open>/\<close> by \<open>_\<close> runs over the bytes
  copied from \<open>nodename\<close>. With \<^verbatim>\<open>UMOCKDEV_DIR\<close> unset, glibc prints \<^verbatim>\<open>(null)\<close> for
  \<^verbatim>\<open>%s\<close>. \<open>makedev\<close> is glibc's.
\<close>

definition makedev :: "int \<Rightarrow> int \<Rightarrow> dev_t" where
  "makedev major minor =
     (let ma = (word_of_int major :: 32 word); mi = (word_of_int minor :: 32 word)
      in push_bit 8 (ucast (ma AND 0x00000FFF)) OR push_bit 32 (ucast (ma AND 0xFFFFF000)) OR
         ucast (mi AND 0x000000FF) OR push_bit 12 (ucast (mi AND 0xFFFFFF00)))"

definition c_string :: "string \<Rightarrow> string" where
  "c_string bytes = takeWhile (\<lambda>c. c \<noteq> CHR 0x00) bytes"

definition readlink_into :: "string \<Rightarrow> string \<Rightarrow> string" where
  "readlink_into placed old = placed @ drop (length placed) old"

definition get_rdev ::
  "nat \<Rightarrow> world \<Rightarrow> string \<Rightarrow> string \<Rightarrow> proc \<Rightarrow> (failure + (dev_t \<times> string) \<times> proc) option" where
  "get_rdev n w link0 nodename s =
     (let buf = (case getenv w ''UMOCKDEV_DIR'' of None \<Rightarrow> ''(null)'' | Some root \<Rightarrow> root) @
                ''/dev/.node/'' @ map (\<lambda>c. if c = CHR ''/'' then CHR ''_'' else c) nodename;
          orig_errno = errno s
      in case readlink n w (Str buf) PATH_MAX s of
           None \<Rightarrow> None
         | Some (Inl f) \<Rightarrow> Some (Inl f)
         | Some (Inr (None, s1)) \<Rightarrow> Some (Inr ((0, link0), s1\<lparr>errno := orig_errno\<rparr>))
         | Some (Inr (Some placed, s1)) \<Rightarrow>
             let link = readlink_into placed link0;
                 s2 = s1\<lparr>errno := orig_errno\<rparr>;
                 (conv, u) = libc_sscanf_ii w (c_string link);
                 s3 = s2\<lparr>errno := errno_after u (errno s2)\<rparr>
             in (case conv of
                   None \<Rightarrow> Some (Inr ((0, link), s3))
                 | Some (major, minor) \<Rightarrow> Some (Inr ((makedev major minor, link), s3))))"

text \<open>
  \<open>is_emulated_device\<close>. \<open>dest0\<close> is what the ten bytes of the local array \<open>dest\<close> hold before
  \<^verbatim>\<open>readlink\<close> writes into them. \<^verbatim>\<open>assert(res > 0)\<close> aborts when the link cannot be read.
\<close>

definition is_emulated_device ::
  "nat \<Rightarrow> world \<Rightarrow> cstr \<Rightarrow> mode_t \<Rightarrow> string \<Rightarrow> proc \<Rightarrow> (failure + bool \<times> proc) option" where
  "is_emulated_device n w path mode dest0 s =
     (if S_ISLNK mode then
        (let orig_errno = errno s
         in case readlink n w path 10 s of
              None \<Rightarrow> None
            | Some (Inl f) \<Rightarrow> Some (Inl f)
            | Some (Inr (ret, s1)) \<Rightarrow>
                let res = (case ret of None \<Rightarrow> - 1 | Some placed \<Rightarrow> int (length placed));
                    dest = (case ret of None \<Rightarrow> dest0 | Some placed \<Rightarrow> readlink_into placed dest0);
                    s2 = s1\<lparr>errno := orig_errno\<rparr>
                in if res > 0 then Some (Inr (strncmp_eq dest ''/dev/'' 5, s2))
                   else Some (Inl Aborted))
      else Some (Inr (\<not> S_ISDIR mode, s)))"

text \<open>
  The template \<^verbatim>\<open>WRAP_VERSTAT\<close> (\<^verbatim>\<open>__xstat\<close>, \<^verbatim>\<open>__xstat64\<close>, \<^verbatim>\<open>__lxstat\<close>, \<^verbatim>\<open>__lxstat64\<close>).
  \<open>fn\<close> is the C library's function: from the version, the path and the caller's
  \<^verbatim>\<open>struct stat\<close> it gives its return value, the structure afterwards and its effect on
  \<open>errno\<close>. The result is the return value, the caller's structure, the static buffer of
  \<open>get_rdev\<close> and the state.
\<close>

definition WRAP_VERSTAT ::
  "nat \<Rightarrow> world \<Rightarrow> (int \<Rightarrow> string \<Rightarrow> stat \<Rightarrow> (int \<times> stat) \<times> errno option) \<Rightarrow> int \<Rightarrow> cstr \<Rightarrow> stat
     \<Rightarrow> string \<Rightarrow> string \<Rightarrow> proc \<Rightarrow> (failure + ((int \<times> stat) \<times> string) \<times> proc) option" where
  "WRAP_VERSTAT n w fn ver path st link0 dest0 s =
     (case trap_path n w path s of
        None \<Rightarrow> None
      | Some (Inl f) \<Rightarrow> Some (Inl f)
      | Some (Inr (p, s1)) \<Rightarrow>
          if p = Null then Some (Inr (((- 1, st), link0), s1))
          else
            let ((ret, st1), u) = fn ver (string_at s1 p) st;
                s2 = s1\<lparr>errno := errno_after u (errno s1)\<rparr>
            in if ret = 0 \<and> p \<noteq> path \<and> strncmp_eq (string_at s2 path) ''/dev/'' 5 then
                 (case is_emulated_device n w p (st_mode st1) dest0 s2 of
                    None \<Rightarrow> None
                  | Some (Inl f) \<Rightarrow> Some (Inl f)
                  | Some (Inr (emulated, s3)) \<Rightarrow>
                      if emulated then
                        let m1 = st_mode st1 AND NOT S_IFREG;
                            m2 = (if m1 AND S_ISVTX \<noteq> 0 then (m1 AND NOT S_ISVTX) OR S_IFBLK
                                  else m1 OR S_IFCHR)
                        in (case get_rdev n w link0 (drop 5 (string_at s3 path)) s3 of
                              None \<Rightarrow> None
                            | Some (Inl f) \<Rightarrow> Some (Inl f)
                            | Some (Inr ((rdev, link1), s4)) \<Rightarrow>
                                Some (Inr (((ret, st1\<lparr>st_mode := m2, st_rdev := rdev\<rparr>), link1), s4)))
                      else Some (Inr (((ret, st1), link0), s3)))
               else Some (Inr (((ret, st1), link0), s2)))"

section \<open>Wrappers for accessing netlink socket\<close>

text \<open>
  The message header as \<open>recvmsg\<close> uses it. \<open>msg_name\<close> is the caller's address buffer read
  as a \<^verbatim>\<open>struct sockaddr_nl\<close> (\<open>None\<close>: a \<open>NULL\<close> pointer). \<open>msg_control\<close> is the control
  message at the start of the control buffer (\<open>None\<close>: a \<open>NULL\<close> pointer) and \<open>more_control\<close>
  the control messages behind it. The data of a control message is a list of 32-bit words;
  a \<^verbatim>\<open>struct ucred\<close> is the three words pid, uid, gid, so that \<^verbatim>\<open>cred->uid\<close> is the word at
  index 1. (A data of fewer than two words is followed by padding or by the upper half of
  the next length field: the write does not show there.) \<^verbatim>\<open>CMSG_FIRSTHDR\<close> is glibc's:
  the control buffer when \<open>msg_controllen\<close> reaches the size of a header, else \<open>NULL\<close>.
\<close>

definition AF_NETLINK :: "16 word" where
  "AF_NETLINK = 16"



record sockaddr_nl =
  nl_family :: "16 word"
  nl_pid :: "32 word"
  nl_groups :: "32 word"

record cmsghdr =
  cmsg_len :: nat
  cmsg_level :: int
  cmsg_type :: int
  CMSG_DATA :: "32 word list"

record msghdr =
  msg_name :: "sockaddr_nl option"
  msg_namelen :: "32 word"
  msg_control :: "cmsghdr option"
  more_control :: "cmsghdr list"
  msg_controllen :: nat

definition sizeof_cmsghdr :: nat where
  "sizeof_cmsghdr = 16"

definition CMSG_FIRSTHDR :: "msghdr \<Rightarrow> cmsghdr option" where
  "CMSG_FIRSTHDR msg = (if msg_controllen msg \<ge> sizeof_cmsghdr then msg_control msg else None)"

text \<open>
  \<open>recvmsg\<close>. \<open>real_recvmsg\<close> is the C library's function: its return value and the message
  header afterwards. \<open>wrapped_sockets\<close> is the registry of the netlink descriptors.
  \<^verbatim>\<open>sizeof(sender)\<close> is the size of a pointer, 8. Writing through a \<open>NULL\<close> \<open>msg_name\<close> is
  undefined behaviour.
\<close>

definition recvmsg ::
  "fd_map \<Rightarrow> (int \<Rightarrow> msghdr \<Rightarrow> int \<Rightarrow> int \<times> msghdr) \<Rightarrow> int \<Rightarrow> msghdr \<Rightarrow> int
     \<Rightarrow> failure + (int \<times> msghdr)" where
  "recvmsg wrapped_sockets real_recvmsg sockfd msg flags =
     (let (ret, msg1) = real_recvmsg sockfd msg flags
      in if fst (fd_map_get wrapped_sockets sockfd) \<noteq> 0 \<and> ret > 0 then
           (case msg_name msg1 of
              None \<Rightarrow> Inl Undefined_behaviour
            | Some sender \<Rightarrow>
                let msg2 = msg1\<lparr>msg_name :=
                              Some (sender\<lparr>nl_family := AF_NETLINK, nl_pid := 0, nl_groups := 2\<rparr>),
                            msg_namelen := 8\<rparr>
                in (case CMSG_FIRSTHDR msg2 of
                      None \<Rightarrow> Inr (ret, msg2)
                    | Some cmsg \<Rightarrow>
                        Inr (ret, msg2\<lparr>msg_control :=
                               Some (cmsg\<lparr>CMSG_DATA := (CMSG_DATA cmsg)[1 := 0]\<rparr>)\<rparr>)))
         else Inr (ret, msg1))"



section \<open>ioctl recording and emulation\<close>

text \<open>
  The ioctl tree of \<^verbatim>\<open>ioctl_tree.h\<close> is not part of this file of the source: its operations
  are parameters. A tree or a node is a pointer; \<open>'h\<close> is the memory those operations (and
  the kernel's \<^verbatim>\<open>ioctl\<close>) read and write, the argument buffers included.
  \<open>ioctl_tree_execute env h tree last request arg\<close> gives the node pointer it returns and
  what it stores in \<^verbatim>\<open>*ret\<close> (\<open>None\<close>: nothing). \<open>libc_ioctl\<close> is the C library's
  \<^verbatim>\<open>ioctl\<close>.
\<close>

type_synonym request = "64 word"

record 'h ioctl_env =
  ioctl_tree_execute :: "'h \<Rightarrow> ptr \<Rightarrow> ptr \<Rightarrow> request \<Rightarrow> ptr \<Rightarrow> (ptr \<times> int option) \<times> 'h"
  ioctl_tree_new_from_bin :: "'h \<Rightarrow> request \<Rightarrow> ptr \<Rightarrow> int \<Rightarrow> ptr \<times> 'h"
  ioctl_tree_insert :: "'h \<Rightarrow> ptr \<Rightarrow> ptr \<Rightarrow> 'h"
  ioctl_tree_read :: "'h \<Rightarrow> string \<Rightarrow> ptr \<times> 'h"
  libc_ioctl :: "'h \<Rightarrow> int \<Rightarrow> request \<Rightarrow> ptr \<Rightarrow> int \<times> 'h"

record ioctl_fd_info =
  tree :: ptr
  last :: ptr

text \<open>
  The globals of the two ioctl sections, and the static \<open>record_rdev\<close> of
  \<open>ioctl_record_open\<close>. \<open>ioctl_record_log\<close> is the stream (\<open>None\<close>: \<open>NULL\<close>), named by the
  path it was opened on. \<open>fdinfo_heap\<close> holds the \<^verbatim>\<open>struct ioctl_fd_info\<close> objects that
  \<^verbatim>\<open>malloc\<close> returned. Two fields observe the outside: \<open>real_ioctl_calls\<close> lists the calls made
  to the C library's \<^verbatim>\<open>ioctl\<close>, \<open>record_file_writes\<close> the trees that \<open>ioctl_record_close\<close>
  wrote to the record file.
\<close>

record 'h ioctl_state =
  ioctl_record_fd :: int
  ioctl_record_log :: "string option"
  ioctl_record :: ptr
  record_rdev :: dev_t
  ioctl_wrapped_fds :: fd_map
  fdinfo_heap :: "ptr \<Rightarrow> ioctl_fd_info option"
  mem :: 'h
  real_ioctl_calls :: "(int \<times> request \<times> ptr) list"
  record_file_writes :: "ptr list"

text \<open>
  \<open>ioctl_record_open\<close>. The \<^verbatim>\<open>fopen\<close> it calls is the wrapper of this file; at that point
  \<^verbatim>\<open>UMOCKDEV_DIR\<close> is unset (otherwise the function has left through \<^verbatim>\<open>exit\<close>), so the
  wrapper hands the path to the C library unchanged.
\<close>

definition ioctl_record_open ::
  "world \<Rightarrow> 'h ioctl_env \<Rightarrow> 'h ioctl_state \<Rightarrow> int \<Rightarrow> errno \<Rightarrow> failure + 'h ioctl_state" where
  "ioctl_record_open w env s fd e =
     (if fd < 0 then Inr s
      else
        let s1 = (if record_rdev s = - 1 then
                    (case getenv w ''UMOCKDEV_IOCTL_RECORD_DEV'' of
                       Some dev \<Rightarrow> s\<lparr>record_rdev := word_of_int (libc_atoi w dev)\<rparr>
                     | None \<Rightarrow> s\<lparr>record_rdev := 0\<rparr>)
                  else s)
        in if record_rdev s1 = 0 then Inr s1
           else if fst (dev_of_fd w fd e) \<noteq> record_rdev s1 then Inr s1
           else
             let s2 = s1\<lparr>ioctl_record_fd := fd\<rparr>
             in if ioctl_record_log s2 = None then
                  (case getenv w ''UMOCKDEV_IOCTL_RECORD_FILE'' of
                     None \<Rightarrow> Inl (Exited 1)
                   | Some path \<Rightarrow>
                       if getenv w ''UMOCKDEV_DIR'' \<noteq> None then Inl (Exited 1)
                       else if \<not> libc_fopen_ok w path then Inl (Exited 1)
                       else
                         let (t, h) = ioctl_tree_read env (mem s2) path
                         in Inr (s2\<lparr>ioctl_record_log := Some path, ioctl_record := t, mem := h\<rparr>))
                else Inr s2)"

text \<open>
  \<open>ioctl_record_close\<close>: with a tree recorded, the record file is truncated and the tree
  written and flushed; \<open>ftruncate_ok\<close> says whether \<^verbatim>\<open>ftruncate\<close> returns 0, as the
  \<^verbatim>\<open>assert\<close> demands.
\<close>

definition ioctl_record_close :: "bool \<Rightarrow> 'h ioctl_state \<Rightarrow> failure + 'h ioctl_state" where
  "ioctl_record_close ftruncate_ok s =
     (if ioctl_record s \<noteq> NULL then
        (if ftruncate_ok then Inr (s\<lparr>record_file_writes := record_file_writes s @ [ioctl_record s]\<rparr>)
         else Inl Aborted)
      else Inr s)"

definition record_ioctl ::
  "'h ioctl_env \<Rightarrow> 'h ioctl_state \<Rightarrow> request \<Rightarrow> ptr \<Rightarrow> int \<Rightarrow> failure + 'h ioctl_state" where
  "record_ioctl env s request arg result =
     (if ioctl_record_log s = None then Inl Aborted
      else
        let (node, h1) = ioctl_tree_new_from_bin env (mem s) request arg result
        in if node = NULL then Inr (s\<lparr>mem := h1\<rparr>)
           else
             let h2 = ioctl_tree_insert env h1 (ioctl_record s) node
             in Inr (s\<lparr>mem := h2,
                       ioctl_record := (if ioctl_record s = NULL then node else ioctl_record s)\<rparr>))"

text \<open>
  \<open>ioctl_emulate\<close>: -2 means "unhandled". Reading through a registered pointer that
  \<open>fdinfo_heap\<close> does not hold is undefined behaviour.
\<close>

definition ioctl_emulate ::
  "'h ioctl_env \<Rightarrow> 'h ioctl_state \<Rightarrow> int \<Rightarrow> request \<Rightarrow> ptr \<Rightarrow> failure + (int \<times> 'h ioctl_state)" where
  "ioctl_emulate env s fd request arg =
     (let (found, fdinfo) = fd_map_get (ioctl_wrapped_fds s) fd
      in if found \<noteq> 0 then
           (case fdinfo_heap s fdinfo of
              None \<Rightarrow> Inl Undefined_behaviour
            | Some info \<Rightarrow>
                let ((ret, written), h1) =
                      ioctl_tree_execute env (mem s) (tree info) (last info) request arg;
                    ioctl_result = (case written of None \<Rightarrow> - 2 | Some r \<Rightarrow> r);
                    s1 = s\<lparr>mem := h1\<rparr>
                in Inr (ioctl_result,
                        if ret \<noteq> NULL then
                          s1\<lparr>fdinfo_heap := (fdinfo_heap s1)(fdinfo := Some (info\<lparr>last := ret\<rparr>))\<rparr>
                        else s1))
         else Inr (- 2, s))"

definition ioctl ::
  "'h ioctl_env \<Rightarrow> 'h ioctl_state \<Rightarrow> int \<Rightarrow> request \<Rightarrow> ptr \<Rightarrow> failure + (int \<times> 'h ioctl_state)" where
  "ioctl env s d request arg =
     (case ioctl_emulate env s d request arg of
        Inl f \<Rightarrow> Inl f
      | Inr (result, s1) \<Rightarrow>
          if result \<noteq> - 2 then Inr (result, s1)
          else
            let (result, h) = libc_ioctl env (mem s1) d request arg;
                s2 = s1\<lparr>mem := h, real_ioctl_calls := real_ioctl_calls s1 @ [(d, request, arg)]\<rparr>
            in if result \<noteq> - 1 \<and> ioctl_record_fd s2 = d then
                 (case record_ioctl env s2 request arg result of
                    Inl f \<Rightarrow> Inl f
                  | Inr s3 \<Rightarrow> Inr (result, s3))
               else Inr (result, s2))"

section \<open>Device script (read/write) recording\<close>

text \<open>
  \<^verbatim>\<open>struct script_record_info\<close>: \<open>sr_log\<close> is the text written to the stream \<^verbatim>\<open>log\<close> so far,
  \<open>sr_time\<close> the time of the last operation, \<open>sr_op\<close> the last operation (NUL: none,
  \<^verbatim>\<open>'r'\<close>, \<^verbatim>\<open>'w'\<close>). \<^verbatim>\<open>putc\<close> appends a byte to the text.
\<close>

record timespec =
  tv_sec :: int
  tv_nsec :: int

record script_record_info =
  sr_log :: string
  sr_time :: timespec
  sr_op :: char

record script_state =
  script_recorded_fds :: fd_map
  srinfo_heap :: "ptr \<Rightarrow> script_record_info option"

text \<open>C's integer division, which truncates towards zero.\<close>

definition c_div :: "int \<Rightarrow> int \<Rightarrow> int" where
  "c_div a b = (if (a < 0) = (b < 0) then \<bar>a\<bar> div \<bar>b\<bar> else - (\<bar>a\<bar> div \<bar>b\<bar>))"

text \<open>
  \<open>update_msec\<close>: \<open>clock\<close> is what \<^verbatim>\<open>clock_gettime(CLOCK_MONOTONIC, &now)\<close> yields (\<open>None\<close>: it
  does not return 0). Both \<^verbatim>\<open>assert\<close>s abort. \<^verbatim>\<open>delta\<close> is a \<^verbatim>\<open>long\<close> of 64 bits: a
  step of the computation that leaves its range is undefined behaviour. The result is the
  delta and the new \<^verbatim>\<open>*tm\<close>.
\<close>

definition long_range :: "int \<Rightarrow> bool" where
  "long_range x \<longleftrightarrow> - (2 ^ 63) \<le> x \<and> x < 2 ^ 63"

definition update_msec :: "timespec option \<Rightarrow> timespec \<Rightarrow> failure + (nat \<times> timespec)" where
  "update_msec clock tm =
     (case clock of
        None \<Rightarrow> Inl Aborted
      | Some now \<Rightarrow>
          let d1 = tv_sec now - tv_sec tm;
              d2 = d1 * 1000;
              d3 = d2 + c_div (tv_nsec now) 1000000;
              delta = d3 - c_div (tv_nsec tm) 1000000
          in if \<not> (long_range d1 \<and> long_range d2 \<and> long_range d3 \<and> long_range delta)
             then Inl Undefined_behaviour
             else if delta \<ge> 0 then Inr (nat delta, now)
             else Inl Aborted)"

text \<open>\<^verbatim>\<open>%lu\<close>: the decimal digits of an unsigned number.\<close>

fun show_nat :: "nat \<Rightarrow> string" where
  "show_nat n =
     (if n < 10 then [char_of (48 + n)] else show_nat (n div 10) @ [char_of (48 + n mod 10)])"

declare show_nat.simps [simp del]

text \<open>
  The loop \<^verbatim>\<open>for (i = 0, cur = buf; i < size; ++i, ++cur)\<close> that escapes ASCII control
  characters, writing to the log with \<^verbatim>\<open>putc\<close>.
\<close>

function script_escape_loop :: "nat \<Rightarrow> nat \<Rightarrow> string \<Rightarrow> string \<Rightarrow> string" where
  "script_escape_loop i sz buf lg =
     (if i < sz then
        (let cur = buf ! i
         in if of_char cur < (32 :: nat) then
              script_escape_loop (Suc i) sz buf
                (lg @ [CHR ''^''] @ [char_of (of_char cur + (64 :: nat))])
            else
              script_escape_loop (Suc i) sz buf
                ((if cur = CHR ''^'' then lg @ [CHR ''^''] else lg) @ [cur]))
      else lg)"
  by pat_completeness auto
termination
  by (relation "measure (\<lambda>(i, sz, buf, lg). sz - i)") auto

declare script_escape_loop.simps [simp del]

text \<open>
  \<open>script_record_op\<close>. \<open>buf\<close> holds the bytes of the caller's buffer and \<open>sz\<close> is the
  \<^verbatim>\<open>ssize_t size\<close>, the result of the operation. \<open>fwrite_ok\<close> says whether the C
  library's \<^verbatim>\<open>fwrite\<close> writes the header; a header of length 0 makes it return 0.
\<close>

definition script_record_op ::
  "timespec option \<Rightarrow> bool \<Rightarrow> script_state \<Rightarrow> char \<Rightarrow> int \<Rightarrow> string \<Rightarrow> int
     \<Rightarrow> failure + script_state" where
  "script_record_op clock fwrite_ok s op fd buf sz =
     (let (found, srinfo) = fd_map_get (script_recorded_fds s) fd
      in if found = 0 then Inr s
         else if sz \<le> 0 then Inr s
         else
           (case srinfo_heap s srinfo of
              None \<Rightarrow> Inl Undefined_behaviour
            | Some info \<Rightarrow>
                (case update_msec clock (sr_time info) of
                   Inl f \<Rightarrow> Inl f
                 | Inr (delta, now) \<Rightarrow>
                     (case
                        (if delta > 0 \<or> sr_op info \<noteq> op then
                           (let lg0 = (if sr_op info \<noteq> CHR 0x00 then sr_log info @ [CHR 0x0A]
                                       else sr_log info);
                                header = c_string ([op] @ '' '' @ show_nat delta @ '' '')
                            in if header \<noteq> [] \<and> fwrite_ok then Inr (lg0 @ header)
                               else Inl Aborted)
                         else Inr (sr_log info))
                      of
                        Inl f \<Rightarrow> Inl f
                      | Inr lg1 \<Rightarrow>
                          let lg2 = script_escape_loop 0 (nat sz) buf lg1
                          in Inr (s\<lparr>srinfo_heap := (srinfo_heap s)(srinfo :=
                                    Some \<lparr>sr_log = lg2, sr_time = now, sr_op = op\<rparr>)\<rparr>)))))"

text \<open>
  The escaping as the specification words it: a byte below 32 becomes a caret and the byte
  plus 64, a caret becomes two carets, every other byte stays.
\<close>

definition caret_escape :: "char \<Rightarrow> string" where
  "caret_escape c =
     (if of_char c < (32 :: nat) then [CHR ''^'', char_of (of_char c + (64 :: nat))]
      else if c = CHR ''^'' then [CHR ''^'', CHR ''^'']
      else [c])"

text \<open>
  The elapsed milliseconds as the specification speaks of them, written out: the
  milliseconds between two readings of the monotonic clock, each reading cut to whole
  milliseconds. \<open>clock_advanced t0 t1\<close> says that \<open>t1\<close> is a reading of the monotonic clock
  not before \<open>t0\<close> and less than \<open>2 ^ 53\<close> seconds after it, both with their nanoseconds
  below one second. \<open>elapsed_nsec\<close> is the time between the readings in nanoseconds.
\<close>

definition clock_advanced :: "timespec \<Rightarrow> timespec \<Rightarrow> bool" where
  "clock_advanced t0 t1 \<longleftrightarrow>
     0 \<le> tv_nsec t0 \<and> tv_nsec t0 < 1000000000 \<and> 0 \<le> tv_nsec t1 \<and> tv_nsec t1 < 1000000000 \<and>
     (tv_sec t0 < tv_sec t1 \<or> (tv_sec t0 = tv_sec t1 \<and> tv_nsec t0 \<le> tv_nsec t1)) \<and>
     tv_sec t1 - tv_sec t0 < 2 ^ 53"

definition elapsed_msec :: "timespec \<Rightarrow> timespec \<Rightarrow> nat" where
  "elapsed_msec t0 t1 =
     nat ((tv_sec t1 * 1000 + tv_nsec t1 div 1000000) - (tv_sec t0 * 1000 + tv_nsec t0 div 1000000))"

definition elapsed_nsec :: "timespec \<Rightarrow> timespec \<Rightarrow> int" where
  "elapsed_nsec t0 t1 =
     (tv_sec t1 * 1000000000 + tv_nsec t1) - (tv_sec t0 * 1000000000 + tv_nsec t0)"

text \<open>
  A recorder state for the examples: descriptor 5 is recorded, its log holds one write record
  and the last operation was a write at second 10.
\<close>

definition script_example_state :: script_state where
  "script_example_state =
     \<lparr>script_recorded_fds =
        fd_map_zero\<lparr>fm_set := (fm_set fd_map_zero)[0 := 1], fm_fd := (fm_fd fd_map_zero)[0 := 5],
                     fm_data := (fm_data fd_map_zero)[0 := 1]\<rparr>,
      srinfo_heap = (\<lambda>p. if p = 1 then
        Some \<lparr>sr_log = ''w 0 ab'', sr_time = \<lparr>tv_sec = 10, tv_nsec = 0\<rparr>, sr_op = CHR ''w''\<rparr>
        else None)\<rparr>"

text \<open>
  Worlds for the examples. In \<open>example_world\<close> the testbed root is \<^verbatim>\<open>/tmp/tb\<close> and
  \<^verbatim>\<open>/tmp/tb/dev/ttyUSB0\<close> is the only path that exists; every other call fails. The others
  differ from it in the root: 8188 bytes long, 8187 bytes long, and \<^verbatim>\<open>/dev/shm/tb\<close>. In
  \<open>overflow_link_world\<close> every symlink reads \<^verbatim>\<open>99999999999999999999:1\<close>, on which
  \<^verbatim>\<open>sscanf\<close> converts two numbers and sets \<open>errno\<close> to \<open>ERANGE\<close> (34). \<open>start_proc\<close> is a
  process state with \<open>errno\<close> 42 and the static buffer of \<open>trap_path\<close> still empty.
\<close>

definition example_world :: world where
  "example_world =
     \<lparr>getenv = (\<lambda>n. if n = ''UMOCKDEV_DIR'' then Some ''/tmp/tb'' else None),
      libc_access = (\<lambda>p. if p = ''/tmp/tb/dev/ttyUSB0'' then (True, None) else (False, Some 2)),
      libc_fstat = (\<lambda>fd. (None, Some 9)),
      libc_readlink = (\<lambda>p. (None, Some 2)),
      libc_sscanf_ii = (\<lambda>s. (None, None)),
      libc_atoi = (\<lambda>s. 0),
      libc_fopen_ok = (\<lambda>p. False)\<rparr>"

definition long_root_world :: world where
  "long_root_world = example_world\<lparr>getenv :=
     (\<lambda>n. if n = ''UMOCKDEV_DIR'' then Some (replicate 8188 (CHR ''a'')) else None)\<rparr>"

definition overrun_root_world :: world where
  "overrun_root_world = example_world\<lparr>getenv :=
     (\<lambda>n. if n = ''UMOCKDEV_DIR'' then Some (replicate 8187 (CHR ''a'')) else None)\<rparr>"

definition dev_shm_world :: world where
  "dev_shm_world = example_world\<lparr>getenv :=
     (\<lambda>n. if n = ''UMOCKDEV_DIR'' then Some ''/dev/shm/tb'' else None)\<rparr>"

definition overflow_link_world :: world where
  "overflow_link_world = example_world\<lparr>
     libc_readlink := (\<lambda>p. (Some ''99999999999999999999:1'', None)),
     libc_sscanf_ii := (\<lambda>s. (Some (- 1, 1), Some 34))\<rparr>"

definition start_proc :: proc where
  "start_proc = \<lparr>errno = 42, trap_buf = []\<rparr>"

text \<open>
  For the examples: the C library's \<^verbatim>\<open>__xstat\<close> and \<^verbatim>\<open>stat\<close>, reporting a regular file with
  the sticky bit, mode 0101644.
\<close>

definition sticky_file_xstat :: "int \<Rightarrow> string \<Rightarrow> stat \<Rightarrow> (int \<times> stat) \<times> errno option" where
  "sticky_file_xstat ver p st = ((0, \<lparr>st_mode = 0x83A4, st_rdev = 0\<rparr>), None)"

definition sticky_file_stat :: "string \<Rightarrow> stat \<Rightarrow> (int \<times> stat) \<times> errno option" where
  "sticky_file_stat p st = ((0, \<lparr>st_mode = 0x83A4, st_rdev = 0\<rparr>), None)"




text \<open>
  For the examples of the ioctl wrappers: descriptor 5 is registered with the tree at
  address 10 and no cursor; the tree matches request 1 at node 10 with the recorded result
  \<open>z\<close> and matches no other request; the C library's \<^verbatim>\<open>ioctl\<close> returns 0.
\<close>

definition replay_example_env :: "int \<Rightarrow> unit ioctl_env" where
  "replay_example_env z =
     \<lparr>ioctl_tree_execute = (\<lambda>h t l r a. if r = 1 then ((10, Some z), h) else ((NULL, None), h)),
      ioctl_tree_new_from_bin = (\<lambda>h r a res. (NULL, h)),
      ioctl_tree_insert = (\<lambda>h t n. h),
      ioctl_tree_read = (\<lambda>h p. (NULL, h)),
      libc_ioctl = (\<lambda>h d r a. (0, h))\<rparr>"

definition replay_example_state :: "unit ioctl_state" where
  "replay_example_state =
     \<lparr>ioctl_record_fd = - 1, ioctl_record_log = None, ioctl_record = NULL, record_rdev = 0,
      ioctl_wrapped_fds =
        fd_map_zero\<lparr>fm_set := (fm_set fd_map_zero)[0 := 1], fm_fd := (fm_fd fd_map_zero)[0 := 5],
                     fm_data := (fm_data fd_map_zero)[0 := 1]\<rparr>,
      fdinfo_heap = (\<lambda>p. if p = 1 then Some \<lparr>tree = 10, last = NULL\<rparr> else None),
      mem = (), real_ioctl_calls = [], record_file_writes = []\<rparr>"

text \<open>
  For the examples of recording: every descriptor is a character device with device number
  0xBD01, the recording target; descriptor 4 is being recorded.
\<close>

definition record_example_world :: world where
  "record_example_world =
     \<lparr>getenv = (\<lambda>n. if n = ''UMOCKDEV_IOCTL_RECORD_DEV'' then Some ''48385''
                     else if n = ''UMOCKDEV_IOCTL_RECORD_FILE'' then Some ''/tmp/rec'' else None),
      libc_access = (\<lambda>p. (False, Some 2)),
      libc_fstat = (\<lambda>fd. (Some \<lparr>st_mode = 0x21B0, st_rdev = 0xBD01\<rparr>, None)),
      libc_readlink = (\<lambda>p. (None, Some 2)),
      libc_sscanf_ii = (\<lambda>s. (None, None)),
      libc_atoi = (\<lambda>s. 48385),
      libc_fopen_ok = (\<lambda>p. True)\<rparr>"

definition record_example_state :: "unit ioctl_state" where
  "record_example_state =
     \<lparr>ioctl_record_fd = 4, ioctl_record_log = Some ''/tmp/rec'', ioctl_record = 10,
      record_rdev = 0xBD01, ioctl_wrapped_fds = fd_map_zero, fdinfo_heap = (\<lambda>p. None),
      mem = (), real_ioctl_calls = [], record_file_writes = []\<rparr>"

text \<open>
  The paths that \<open>trap_path\<close> takes for its own: \<^verbatim>\<open>/dev\<close>, \<^verbatim>\<open>/sys\<close> and what lies below them.
\<close>

definition under_dev_or_sys :: "string \<Rightarrow> bool" where
  "under_dev_or_sys p \<longleftrightarrow>
     p = ''/dev'' \<or> take 5 p = ''/dev/'' \<or> p = ''/sys'' \<or> take 5 p = ''/sys/''"

text \<open>
  A world whose testbed root is the empty string, in which \<^verbatim>\<open>/dev/null\<close> is the only path
  that exists.
\<close>

definition empty_root_world :: world where
  "empty_root_world = example_world\<lparr>
     getenv := (\<lambda>n. if n = ''UMOCKDEV_DIR'' then Some [] else None),
     libc_access := (\<lambda>p. if p = ''/dev/null'' then (True, None) else (False, Some 2))\<rparr>"

section \<open>Properties of the fd map\<close>

lemma fd_map_get_loop_absent:
  "fst (fd_map_get_loop i m fd) = 0 \<longleftrightarrow>
     (\<forall>j. i \<le> j \<and> j < FD_MAP_MAX \<longrightarrow> \<not> (fm_set m ! j \<noteq> 0 \<and> fm_fd m ! j = fd))"
proof (induction i m fd rule: fd_map_get_loop.induct)
  case (1 i m fd)
  show ?case
  proof (cases "i < FD_MAP_MAX")
    case False
    then show ?thesis by (simp add: fd_map_get_loop.simps [of i])
  next
    case True
    show ?thesis
    proof (cases "fm_set m ! i \<noteq> 0 \<and> fm_fd m ! i = fd")
      case hit: True
      with True show ?thesis
        by (auto simp: fd_map_get_loop.simps [of i])
    next
      case miss: False
      have "(\<forall>j. i \<le> j \<and> j < FD_MAP_MAX \<longrightarrow> \<not> (fm_set m ! j \<noteq> 0 \<and> fm_fd m ! j = fd)) \<longleftrightarrow>
            (\<forall>j. Suc i \<le> j \<and> j < FD_MAP_MAX \<longrightarrow> \<not> (fm_set m ! j \<noteq> 0 \<and> fm_fd m ! j = fd))"
        using miss by (metis Suc_leD Suc_leI le_neq_implies_less)
      moreover have "fd_map_get_loop i m fd = fd_map_get_loop (Suc i) m fd"
        using True miss by (subst fd_map_get_loop.simps) auto
      ultimately show ?thesis
        using True miss "1.IH" by auto
    qed
  qed
qed

lemma fd_map_get_loop_first:
  assumes "i \<le> k" "k < FD_MAP_MAX" "fm_set m ! k \<noteq> 0" "fm_fd m ! k = fd"
    and "\<forall>j. i \<le> j \<and> j < k \<longrightarrow> \<not> (fm_set m ! j \<noteq> 0 \<and> fm_fd m ! j = fd)"
  shows "fd_map_get_loop i m fd = (1, fm_data m ! k)"
  using assms
proof (induction i m fd rule: fd_map_get_loop.induct)
  case (1 i m fd)
  show ?case
  proof (cases "i = k")
    case True
    with "1.prems" show ?thesis by (simp add: fd_map_get_loop.simps [of k])
  next
    case False
    with "1.prems" have lt: "i < k" by simp
    with "1.prems" have miss: "\<not> (fm_set m ! i \<noteq> 0 \<and> fm_fd m ! i = fd)" by blast
    have "fd_map_get_loop (Suc i) m fd = (1, fm_data m ! k)"
      using "1.IH" [OF _ miss] "1.prems" lt by auto
    moreover have "fd_map_get_loop i m fd = fd_map_get_loop (Suc i) m fd"
      using miss lt "1.prems" by (subst fd_map_get_loop.simps) auto
    ultimately show ?thesis by simp
  qed
qed

lemma fd_map_add_loop_result:
  assumes "i \<le> k" "k < FD_MAP_MAX" "fm_set m ! k = 0"
    and "\<forall>j. i \<le> j \<and> j < k \<longrightarrow> fm_set m ! j \<noteq> 0"
  shows "fd_map_add_loop i m fd d =
     Inr (m\<lparr>fm_set := (fm_set m)[k := 1], fm_fd := (fm_fd m)[k := fd],
             fm_data := (fm_data m)[k := d]\<rparr>)"
  using assms
proof (induction i m fd d rule: fd_map_add_loop.induct)
  case (1 i m fd d)
  show ?case
  proof (cases "i = k")
    case True
    with "1.prems" show ?thesis by (simp add: fd_map_add_loop.simps [of k])
  next
    case False
    with "1.prems" have lt: "i < k" by simp
    with "1.prems" have used: "fm_set m ! i \<noteq> 0" by blast
    have "fd_map_add_loop (Suc i) m fd d =
        Inr (m\<lparr>fm_set := (fm_set m)[k := 1], fm_fd := (fm_fd m)[k := fd],
                fm_data := (fm_data m)[k := d]\<rparr>)"
      using "1.IH" [OF _ used] "1.prems" lt by auto
    moreover have "fd_map_add_loop i m fd d = fd_map_add_loop (Suc i) m fd d"
      using used lt "1.prems" by (subst fd_map_add_loop.simps) auto
    ultimately show ?thesis by simp
  qed
qed

lemma fd_map_remove_loop_result:
  assumes "i \<le> k" "k < FD_MAP_MAX" "fm_set m ! k \<noteq> 0" "fm_fd m ! k = fd"
    and "\<forall>j. i \<le> j \<and> j < k \<longrightarrow> \<not> (fm_set m ! j \<noteq> 0 \<and> fm_fd m ! j = fd)"
  shows "fd_map_remove_loop i m fd = Inr (m\<lparr>fm_set := (fm_set m)[k := 0]\<rparr>)"
  using assms
proof (induction i m fd rule: fd_map_remove_loop.induct)
  case (1 i m fd)
  show ?case
  proof (cases "i = k")
    case True
    with "1.prems" show ?thesis by (simp add: fd_map_remove_loop.simps [of k])
  next
    case False
    with "1.prems" have lt: "i < k" by simp
    with "1.prems" have miss: "\<not> (fm_set m ! i \<noteq> 0 \<and> fm_fd m ! i = fd)" by blast
    have "fd_map_remove_loop (Suc i) m fd = Inr (m\<lparr>fm_set := (fm_set m)[k := 0]\<rparr>)"
      using "1.IH" [OF _ miss] "1.prems" lt by auto
    moreover have "fd_map_remove_loop i m fd = fd_map_remove_loop (Suc i) m fd"
      using miss lt "1.prems" by (subst fd_map_remove_loop.simps) auto
    ultimately show ?thesis by simp
  qed
qed

lemma fd_map_free_cell:
  assumes "fd_map_wf m" "fd_map_count m < FD_MAP_MAX"
  shows "\<exists>k < FD_MAP_MAX. fm_set m ! k = 0 \<and> (\<forall>j < k. fm_set m ! j \<noteq> 0)"
proof -
  have "\<exists>k < FD_MAP_MAX. fm_set m ! k = 0"
  proof (rule ccontr)
    assume "\<not> (\<exists>k < FD_MAP_MAX. fm_set m ! k = 0)"
    with assms(1) have "\<forall>s \<in> set (fm_set m). s \<noteq> 0"
      by (auto simp: fd_map_wf_def in_set_conv_nth)
    then have "filter (\<lambda>s. s \<noteq> 0) (fm_set m) = fm_set m"
      by (simp add: filter_id_conv)
    with assms show False by (simp add: fd_map_count_def fd_map_wf_def)
  qed
  then obtain k0 where k0: "k0 < FD_MAP_MAX \<and> fm_set m ! k0 = 0" by blast
  define k where "k = (LEAST k. k < FD_MAP_MAX \<and> fm_set m ! k = 0)"
  have "k < FD_MAP_MAX \<and> fm_set m ! k = 0"
    unfolding k_def using k0 by (rule LeastI)
  moreover have "\<forall>j < k. fm_set m ! j \<noteq> 0"
  proof (intro allI impI)
    fix j assume "j < k"
    then have "\<not> (j < FD_MAP_MAX \<and> fm_set m ! j = 0)"
      unfolding k_def by (rule not_less_Least)
    moreover have "j < FD_MAP_MAX" using \<open>j < k\<close> \<open>k < FD_MAP_MAX \<and> fm_set m ! k = 0\<close> by simp
    ultimately show "fm_set m ! j \<noteq> 0" by blast
  qed
  ultimately show ?thesis by blast
qed


text \<open>
  Claim C7 (registry round trip). For a table \<open>t\<close> with the cells of the C arrays, holding
  fewer than \<open>FD_MAP_MAX\<close> = 50 entries, and a descriptor \<open>fd\<close> that \<open>fd_map_get\<close> reports
  absent: \<open>fd_map_add\<close> returns (it does not abort), after it \<open>fd_map_get\<close> returns 1 with the
  payload \<open>p\<close>; the following \<open>fd_map_remove\<close> returns too, and after it \<open>fd_map_get\<close>
  returns 0 (and stores \<open>NULL\<close>).
\<close>

theorem fd_map_add_get_remove:
  assumes wf: "fd_map_wf t"
    and room: "fd_map_count t < FD_MAP_MAX"
    and absent: "fst (fd_map_get t fd) = 0"
  shows "\<exists>t'. fd_map_add t fd p = Inr t' \<and> fd_map_get t' fd = (1, p) \<and>
           (\<exists>t''. fd_map_remove t' fd = Inr t'' \<and> fd_map_get t'' fd = (0, NULL))"
proof -
  from fd_map_free_cell [OF wf room] obtain k where
    k: "k < FD_MAP_MAX" "fm_set t ! k = 0" "\<forall>j < k. fm_set t ! j \<noteq> 0"
    by blast
  from wf k(1) have len: "k < length (fm_set t)" "k < length (fm_fd t)" "k < length (fm_data t)"
    by (simp_all add: fd_map_wf_def)
  from absent have none:
    "\<forall>j. j < FD_MAP_MAX \<longrightarrow> \<not> (fm_set t ! j \<noteq> 0 \<and> fm_fd t ! j = fd)"
    by (simp add: fd_map_get_def fd_map_get_loop_absent)
  define t' where "t' = t\<lparr>fm_set := (fm_set t)[k := 1], fm_fd := (fm_fd t)[k := fd],
    fm_data := (fm_data t)[k := p]\<rparr>"
  define t'' where "t'' = t'\<lparr>fm_set := (fm_set t')[k := 0]\<rparr>"
  have add: "fd_map_add t fd p = Inr t'"
    unfolding fd_map_add_def t'_def
    by (rule fd_map_add_loop_result) (use k in auto)
  have before: "\<forall>j. 0 \<le> j \<and> j < k \<longrightarrow> \<not> (fm_set t' ! j \<noteq> 0 \<and> fm_fd t' ! j = fd)"
    using none k(1) by (simp add: t'_def)
  have at_k: "fm_set t' ! k \<noteq> 0" "fm_fd t' ! k = fd" "fm_data t' ! k = p"
    using len by (simp_all add: t'_def)
  have get1: "fd_map_get t' fd = (1, p)"
    using fd_map_get_loop_first [of 0 k t' fd] k(1) at_k before
    by (simp add: fd_map_get_def)
  have rem: "fd_map_remove t' fd = Inr t''"
    unfolding fd_map_remove_def t''_def
    by (rule fd_map_remove_loop_result) (use k(1) at_k before in auto)
  have "\<forall>j. 0 \<le> j \<and> j < FD_MAP_MAX \<longrightarrow> \<not> (fm_set t'' ! j \<noteq> 0 \<and> fm_fd t'' ! j = fd)"
  proof (intro allI impI)
    fix j assume j: "0 \<le> j \<and> j < FD_MAP_MAX"
    show "\<not> (fm_set t'' ! j \<noteq> 0 \<and> fm_fd t'' ! j = fd)"
    proof (cases "j = k")
      case True
      with len show ?thesis by (simp add: t''_def t'_def)
    next
      case False
      with none j show ?thesis by (simp add: t''_def t'_def)
    qed
  qed
  then have "fst (fd_map_get t'' fd) = 0"
    by (simp add: fd_map_get_def fd_map_get_loop_absent)
  moreover have "fst (fd_map_get_loop i m x) = 0 \<Longrightarrow> fd_map_get_loop i m x = (0, NULL)" for i m x
    by (induction i m x rule: fd_map_get_loop.induct)
      (subst fd_map_get_loop.simps, subst (asm) (2) fd_map_get_loop.simps, auto split: if_splits)
  ultimately have get2: "fd_map_get t'' fd = (0, NULL)"
    by (simp add: fd_map_get_def)
  from add get1 rem get2 show ?thesis by blast
qed

theorem fd_map_add_get_remove_witness:
  "fd_map_wf fd_map_zero \<and> fd_map_count fd_map_zero < FD_MAP_MAX \<and>
   fst (fd_map_get fd_map_zero 3) = 0 \<and>
   (\<exists>t'. fd_map_add fd_map_zero 3 7 = Inr t' \<and> fd_map_get t' 3 = (1, 7) \<and>
      (\<exists>t''. fd_map_remove t' 3 = Inr t'' \<and> fd_map_get t'' 3 = (0, NULL)))"
proof -
  have h1: "fd_map_wf fd_map_zero" by code_simp
  have h2: "fd_map_count fd_map_zero < FD_MAP_MAX" by code_simp
  have h3: "fst (fd_map_get fd_map_zero 3) = 0" by code_simp
  show ?thesis
    using h1 h2 h3 fd_map_add_get_remove [OF h1 h2 h3, of 7] by blast
qed

section \<open>Properties of the script recorder\<close>

lemma script_escape_loop_concat:
  assumes "sz \<le> length buf"
  shows "script_escape_loop i sz buf lg = lg @ concat (map caret_escape (drop i (take sz buf)))"
  using assms
proof (induction i sz buf lg rule: script_escape_loop.induct)
  case (1 i sz buf lg)
  show ?case
  proof (cases "i < sz")
    case False
    then show ?thesis by (simp add: script_escape_loop.simps [of i])
  next
    case True
    with "1.prems" have split: "drop i (take sz buf) = buf ! i # drop (Suc i) (take sz buf)"
      by (metis Cons_nth_drop_Suc length_take min.absorb2 nth_take)
    show ?thesis
    proof (cases "of_char (buf ! i) < (32 :: nat)")
      case ctl: True
      have "script_escape_loop i sz buf lg =
          script_escape_loop (Suc i) sz buf (lg @ [CHR ''^''] @ [char_of (of_char (buf ! i) + (64 :: nat))])"
        using True ctl by (subst script_escape_loop.simps) (simp add: Let_def)
      also have "\<dots> = (lg @ [CHR ''^''] @ [char_of (of_char (buf ! i) + (64 :: nat))]) @
          concat (map caret_escape (drop (Suc i) (take sz buf)))"
        using "1.IH"(1) [OF True refl ctl "1.prems"] .
      finally show ?thesis using ctl by (simp add: split caret_escape_def [of "buf ! i"])
    next
      case pr: False
      have "script_escape_loop i sz buf lg =
          script_escape_loop (Suc i) sz buf
            ((if buf ! i = CHR ''^'' then lg @ [CHR ''^''] else lg) @ [buf ! i])"
        using True pr by (subst script_escape_loop.simps) (simp add: Let_def)
      also have "\<dots> = ((if buf ! i = CHR ''^'' then lg @ [CHR ''^''] else lg) @ [buf ! i]) @
          concat (map caret_escape (drop (Suc i) (take sz buf)))"
        using "1.IH"(2) [OF True refl pr "1.prems"] .
      finally show ?thesis using pr by (simp add: split caret_escape_def [of "buf ! i"])
    qed
  qed
qed

lemma of_char_char_of_small: "n < 256 \<Longrightarrow> of_char (char_of (n :: nat)) = n"
  by simp

lemma caret_escape_no_newline: "CHR 0x0A \<notin> set (caret_escape c)"
proof (cases "of_char c < (32 :: nat)")
  case True
  then have "of_char (char_of (of_char c + (64 :: nat))) = of_char c + (64 :: nat)"
    by (intro of_char_char_of_small) simp
  then have "char_of (of_char c + (64 :: nat)) \<noteq> CHR 0x0A"
    by (auto simp del: of_char_of)
  with True show ?thesis by (simp add: caret_escape_def)
next
  case False
  then have "c \<noteq> CHR 0x0A" by auto
  with False show ?thesis by (auto simp add: caret_escape_def)
qed

lemma show_nat_no_NUL: "CHR 0x00 \<notin> set (show_nat n)"
proof (induction n rule: show_nat.induct)
  case (1 n)
  have d: "char_of (48 + k) \<noteq> CHR 0x00" if "k < 10" for k :: nat
  proof
    assume "char_of (48 + k) = CHR 0x00"
    then have "of_char (char_of (48 + k)) = (of_char (CHR 0x00) :: nat)" by simp
    moreover have "of_char (char_of (48 + k)) = 48 + k"
      using that by (intro of_char_char_of_small) simp
    ultimately show False by simp
  qed
  show ?case
  proof (cases "n < 10")
    case True
    then show ?thesis using d [of n] by (subst show_nat.simps) simp
  next
    case False
    then show ?thesis using "1.IH" d [of "n mod 10"] by (subst show_nat.simps) simp
  qed
qed


lemma c_string_id: "CHR 0x00 \<notin> set xs \<Longrightarrow> c_string xs = xs"
  by (auto simp: c_string_def)

lemma script_header_no_NUL:
  assumes "op \<noteq> CHR 0x00"
  shows "c_string ([op] @ '' '' @ show_nat delta @ '' '') = [op] @ '' '' @ show_nat delta @ '' ''"
  by (rule c_string_id) (use assms show_nat_no_NUL in auto)

text \<open>
  Claim C4 (caret notation). The escaping loop of \<open>script_record_op\<close>, run over the first
  \<open>sz\<close> bytes of the buffer, appends to the log, byte by byte: for a byte below 32 a caret
  and the character (byte + 64), for the byte 0x5E (a caret) two carets, and every other
  byte as it is. The witness is the example of the specification: the bytes 0x41, 0x0A, 0x5E
  give the text \<open>A^J^^\<close>.
\<close>

theorem script_escape_caret_notation:
  assumes "sz \<le> length buf"
  shows "script_escape_loop 0 sz buf lg =
           lg @ concat (map (\<lambda>c. if of_char c < (32 :: nat)
                                   then [CHR ''^'', char_of (of_char c + (64 :: nat))]
                                   else if c = CHR ''^'' then [CHR ''^'', CHR ''^'']
                                   else [c]) (take sz buf))"
proof -
  have "caret_escape = (\<lambda>c. if of_char c < (32 :: nat)
                                   then [CHR ''^'', char_of (of_char c + (64 :: nat))]
                                   else if c = CHR ''^'' then [CHR ''^'', CHR ''^'']
                                   else [c])"
    by (rule ext) (simp add: caret_escape_def)
  with script_escape_loop_concat [OF assms, of 0 lg] show ?thesis by simp
qed

theorem script_escape_caret_notation_witness:
  "(3 :: nat) \<le> length [CHR 0x41, CHR 0x0A, CHR 0x5E] \<and>
   script_escape_loop 0 3 [CHR 0x41, CHR 0x0A, CHR 0x5E] [] = ''A^J^^''"
proof -
  have h: "(3 :: nat) \<le> length [CHR 0x41, CHR 0x0A, CHR 0x5E]" by simp
  have "char_of (74 :: nat) = CHR ''J''" by code_simp
  with script_escape_caret_notation [OF h, of "[]"] h show ?thesis by simp
qed

lemma c_div_nonneg: "0 \<le> a \<Longrightarrow> 0 < b \<Longrightarrow> c_div a b = a div b"
  by (simp add: c_div_def)

lemma msec_of_nsec_bounds:
  assumes "0 \<le> (x :: int)" "x < 1000000000"
  shows "0 \<le> x div 1000000" "x div 1000000 \<le> 999"
proof -
  show "0 \<le> x div 1000000" using assms by (simp add: pos_imp_zdiv_nonneg_iff)
  show "x div 1000000 \<le> 999" using assms zdiv_mono1 [of x 999999999 1000000] by simp
qed

lemma update_msec_elapsed:
  assumes adv: "clock_advanced t0 t1"
  shows "update_msec (Some t1) t0 = Inr (elapsed_msec t0 t1, t1)"
proof -
  define q0 where "q0 = tv_nsec t0 div 1000000"
  define q1 where "q1 = tv_nsec t1 div 1000000"
  define d where "d = tv_sec t1 - tv_sec t0"
  from adv have ns: "0 \<le> tv_nsec t0" "tv_nsec t0 < 1000000000" "0 \<le> tv_nsec t1" "tv_nsec t1 < 1000000000"
    and ord: "tv_sec t0 < tv_sec t1 \<or> (tv_sec t0 = tv_sec t1 \<and> tv_nsec t0 \<le> tv_nsec t1)"
    and span: "d < 2 ^ 53"
    by (simp_all add: clock_advanced_def d_def)
  have q: "0 \<le> q0" "q0 \<le> 999" "0 \<le> q1" "q1 \<le> 999"
    unfolding q0_def q1_def using msec_of_nsec_bounds ns by blast+
  have qq: "d = 0 \<Longrightarrow> q0 \<le> q1"
    using ord unfolding q0_def q1_def d_def by (auto intro: zdiv_mono1)
  have d0: "0 \<le> d" using ord by (auto simp: d_def)
  have nonneg: "0 \<le> d * 1000 + q1 - q0"
  proof (cases "d = 0")
    case True
    with qq show ?thesis by simp
  next
    case False
    with d0 have "1 \<le> d" by simp
    with q show ?thesis by simp
  qed
  have span': "d < 9007199254740992" using span by simp
  have r: "long_range d" "long_range (d * 1000)" "long_range (d * 1000 + q1)"
    "long_range (d * 1000 + q1 - q0)"
    unfolding long_range_def using span' d0 q nonneg by simp_all
  have el: "elapsed_msec t0 t1 = nat (d * 1000 + q1 - q0)"
    by (simp add: elapsed_msec_def d_def q0_def q1_def algebra_simps)
  have c: "c_div (tv_nsec t1) 1000000 = q1" "c_div (tv_nsec t0) 1000000 = q0"
    using ns by (simp_all add: c_div_nonneg q0_def q1_def)
  have "update_msec (Some t1) t0 =
      (if \<not> (long_range d \<and> long_range (d * 1000) \<and> long_range (d * 1000 + q1) \<and>
               long_range (d * 1000 + q1 - q0))
       then Inl Undefined_behaviour
       else if d * 1000 + q1 - q0 \<ge> 0 then Inr (nat (d * 1000 + q1 - q0), t1) else Inl Aborted)"
    by (simp only: update_msec_def option.case Let_def c d_def)
  with r nonneg el show ?thesis by simp
qed

lemma elapsed_msec_nsec:
  assumes adv: "clock_advanced t0 t1"
  shows "int (elapsed_msec t0 t1) = elapsed_nsec t0 t1 div 1000000 \<or>
         int (elapsed_msec t0 t1) = elapsed_nsec t0 t1 div 1000000 + 1"
proof -
  define d where "d = tv_sec t1 - tv_sec t0"
  define qa where "qa = tv_nsec t1 div 1000000"
  define ra where "ra = tv_nsec t1 mod 1000000"
  define qb where "qb = tv_nsec t0 div 1000000"
  define rb where "rb = tv_nsec t0 mod 1000000"
  have a: "tv_nsec t1 = 1000000 * qa + ra" and b: "tv_nsec t0 = 1000000 * qb + rb"
    by (simp_all add: qa_def ra_def qb_def rb_def)
  have r: "0 \<le> ra" "ra < 1000000" "0 \<le> rb" "rb < 1000000"
    by (simp_all add: ra_def rb_def)
  from adv have ord: "0 < d \<or> (d = 0 \<and> tv_nsec t0 \<le> tv_nsec t1)"
    and ns: "0 \<le> tv_nsec t0" "tv_nsec t0 < 1000000000" "0 \<le> tv_nsec t1" "tv_nsec t1 < 1000000000"
    by (auto simp: clock_advanced_def d_def)
  have q: "0 \<le> qa" "qb \<le> 999"
    unfolding qa_def qb_def using msec_of_nsec_bounds ns by blast+
  have mono: "d = 0 \<Longrightarrow> qb \<le> qa"
    using ord by (auto simp: qa_def qb_def intro: zdiv_mono1)
  have nonneg: "0 \<le> d * 1000 + qa - qb"
  proof (cases "d = 0")
    case True
    with mono show ?thesis by simp
  next
    case False
    with ord have "1 \<le> d" by simp
    with q show ?thesis by simp
  qed
  have e: "elapsed_nsec t0 t1 = 1000000 * (d * 1000 + qa - qb) + (ra - rb)"
    by (simp add: elapsed_nsec_def d_def a b algebra_simps)
  have m: "int (elapsed_msec t0 t1) = d * 1000 + qa - qb"
    using nonneg by (simp add: elapsed_msec_def d_def qa_def qb_def algebra_simps)
  show ?thesis
  proof (cases "rb \<le> ra")
    case True
    have "elapsed_nsec t0 t1 div 1000000 = d * 1000 + qa - qb"
      by (rule int_div_pos_eq [where r = "ra - rb"]) (use e r True in auto)
    with m show ?thesis by simp
  next
    case False
    have "elapsed_nsec t0 t1 div 1000000 = d * 1000 + qa - qb - 1"
      by (rule int_div_pos_eq [where r = "1000000 + ra - rb"]) (use e r False in \<open>auto simp: algebra_simps\<close>)
    with m show ?thesis by simp
  qed
qed


text \<open>
  Claim C5 (record headers). For a recorded descriptor whose stored time \<open>sr_time\<close> is the
  clock reading of the previous recorded operation (of the open, before the first), and a
  read or write of \<open>sz > 0\<close> bytes at the clock reading \<open>now\<close>, the monotonic clock having
  advanced: \<open>script_record_op\<close> returns, stores \<open>now\<close> and the kind, and appends
  to the log the header \<open>"<kind> <elapsed-ms> "\<close>, after a newline unless no operation was
  recorded before (\<open>sr_op\<close> is NUL), exactly when the elapsed milliseconds are not 0 or the
  kind differs from the previous one, and then the escaped bytes; otherwise it appends the
  escaped bytes alone. The escaped bytes hold no newline. The elapsed milliseconds are
  \<open>elapsed_msec sr_time now\<close>, the difference of the two readings, each cut to whole
  milliseconds: the whole milliseconds of the time between the readings, or one more.
\<close>

theorem script_record_op_header:
  assumes reg: "fd_map_get (script_recorded_fds s) fd = (found, srinfo)" "found \<noteq> 0"
    and info: "srinfo_heap s srinfo = Some info"
    and sz: "0 < sz" "nat sz \<le> length buf"
    and clk: "clock_advanced (sr_time info) now"
    and op: "op = CHR ''r'' \<or> op = CHR ''w''"
    and fw: "fwrite_ok"
  shows "script_record_op (Some now) fwrite_ok s op fd buf sz =
           Inr (s\<lparr>srinfo_heap := (srinfo_heap s)(srinfo := Some
             \<lparr>sr_log = sr_log info @
                 (if elapsed_msec (sr_time info) now \<noteq> 0 \<or> sr_op info \<noteq> op
                  then (if sr_op info = CHR 0x00 then [] else [CHR 0x0A]) @
                       [op] @ '' '' @ show_nat (elapsed_msec (sr_time info) now) @ '' ''
                  else []) @
                 concat (map caret_escape (take (nat sz) buf)),
               sr_time = now, sr_op = op\<rparr>)\<rparr>) \<and>
         CHR 0x0A \<notin> set (concat (map caret_escape (take (nat sz) buf))) \<and>
         (int (elapsed_msec (sr_time info) now) = elapsed_nsec (sr_time info) now div 1000000 \<or>
          int (elapsed_msec (sr_time info) now) = elapsed_nsec (sr_time info) now div 1000000 + 1)"
proof -
  define delta where "delta = elapsed_msec (sr_time info) now"
  have upd: "update_msec (Some now) (sr_time info) = Inr (delta, now)"
    unfolding delta_def by (rule update_msec_elapsed [OF clk])
  from op have nz: "op \<noteq> CHR 0x00" by auto
  note hdr = script_header_no_NUL [OF nz, of delta]
  have body: "script_escape_loop 0 (nat sz) buf lg =
      lg @ concat (map caret_escape (take (nat sz) buf))" for lg
    using script_escape_loop_concat [OF sz(2), of 0 lg] by simp
  have nl: "CHR 0x0A \<notin> set (concat (map caret_escape (take (nat sz) buf)))"
    using caret_escape_no_newline by auto
  have "script_record_op (Some now) fwrite_ok s op fd buf sz =
           Inr (s\<lparr>srinfo_heap := (srinfo_heap s)(srinfo := Some
             \<lparr>sr_log = sr_log info @
                 (if delta \<noteq> 0 \<or> sr_op info \<noteq> op
                  then (if sr_op info = CHR 0x00 then [] else [CHR 0x0A]) @
                       [op] @ '' '' @ show_nat delta @ '' ''
                  else []) @
                 concat (map caret_escape (take (nat sz) buf)),
               sr_time = now, sr_op = op\<rparr>)\<rparr>)"
    unfolding script_record_op_def
    using reg info sz(1) upd fw nz
    by (simp add: hdr [simplified] body Let_def)
  with nl elapsed_msec_nsec [OF clk] show ?thesis
    unfolding delta_def by blast
qed

theorem script_record_op_header_witness:
  "fd_map_get (script_recorded_fds script_example_state) 5 = (1, 1) \<and>
   clock_advanced \<lparr>tv_sec = 10, tv_nsec = 0\<rparr> \<lparr>tv_sec = 10, tv_nsec = 7000000\<rparr> \<and>
   elapsed_msec \<lparr>tv_sec = 10, tv_nsec = 0\<rparr> \<lparr>tv_sec = 10, tv_nsec = 7000000\<rparr> = 7 \<and>
   script_record_op (Some \<lparr>tv_sec = 10, tv_nsec = 7000000\<rparr>) True script_example_state
       (CHR ''r'') 5 [CHR 0x41, CHR 0x0A, CHR 0x5E] 3 =
     Inr (script_example_state\<lparr>srinfo_heap := (srinfo_heap script_example_state)(1 := Some
       \<lparr>sr_log = ''w 0 ab'' @ [CHR 0x0A] @ ''r 7 A^J^^'',
         sr_time = \<lparr>tv_sec = 10, tv_nsec = 7000000\<rparr>, sr_op = CHR ''r''\<rparr>)\<rparr>)"
proof -
  have h1: "fd_map_get (script_recorded_fds script_example_state) 5 = (1, 1)"
    by code_simp
  have h2: "srinfo_heap script_example_state 1 =
      Some \<lparr>sr_log = ''w 0 ab'', sr_time = \<lparr>tv_sec = 10, tv_nsec = 0\<rparr>, sr_op = CHR ''w''\<rparr>"
    by (simp add: script_example_state_def)
  have h3: "clock_advanced
      (sr_time \<lparr>sr_log = ''w 0 ab'', sr_time = \<lparr>tv_sec = 10, tv_nsec = 0\<rparr>, sr_op = CHR ''w''\<rparr>)
      \<lparr>tv_sec = 10, tv_nsec = 7000000\<rparr>"
    by (simp add: clock_advanced_def)
  have e: "elapsed_msec \<lparr>tv_sec = 10, tv_nsec = 0\<rparr> \<lparr>tv_sec = 10, tv_nsec = 7000000\<rparr> = 7"
    by (simp add: elapsed_msec_def)
  have h4: "show_nat 7 = ''7''" by code_simp
  have h5: "char_of (74 :: nat) = CHR ''J''" by code_simp
  have h6: "(0 :: int) < 3" "nat 3 \<le> length [CHR 0x41, CHR 0x0A, CHR 0x5E]" by simp_all
  have one: "(1 :: int) \<noteq> 0" by simp
  note t = script_record_op_header [OF h1 one h2 h6 h3, of "CHR ''r''" True, THEN conjunct1]
  from t h1 h3 e h4 h5 show ?thesis by (simp add: caret_escape_def)
qed


section \<open>Properties of the path trapper\<close>

text \<open>
  Claim C8 (name too long). With a root configured, for a path that is \<^verbatim>\<open>/dev\<close>,
  \<^verbatim>\<open>/sys\<close> or below one of them, and root and path together at least as long as the buffer:
  \<open>trap_path\<close> returns \<open>NULL\<close> with \<open>errno\<close> set to \<open>ENAMETOOLONG\<close>, whatever the fuel, and
  each wrapper template returns its failure value with that \<open>errno\<close>; the C library's
  function is not called, and the static buffer is not written.
\<close>

theorem trap_path_name_too_long:
  assumes root: "getenv w ''UMOCKDEV_DIR'' = Some root"
    and sub: "path = ''/dev'' \<or> take 5 path = ''/dev/'' \<or> path = ''/sys'' \<or> take 5 path = ''/sys/''"
    and long: "length root + length path \<ge> sizeof_buf"
  shows "trap_path n w (Str path) s = Some (Inr (Null, s\<lparr>errno := ENAMETOOLONG\<rparr>)) \<and>
         WRAP_1ARG n w fa ra (Str path) s = Some (Inr (ra, s\<lparr>errno := ENAMETOOLONG\<rparr>)) \<and>
         WRAP_2ARGS n w fb rb (Str path) x s = Some (Inr (rb, s\<lparr>errno := ENAMETOOLONG\<rparr>)) \<and>
         WRAP_3ARGS n w fc rc (Str path) y z s = Some (Inr (rc, s\<lparr>errno := ENAMETOOLONG\<rparr>)) \<and>
         WRAP_VERSTAT n w fn ver (Str path) st link0 dest0 s =
           Some (Inr (((- 1, st), link0), s\<lparr>errno := ENAMETOOLONG\<rparr>))"
proof -
  from sub have "strncmp_eq path ''/dev/'' 5 \<or> path = ''/dev'' \<or>
      strncmp_eq path ''/sys/'' 5 \<or> path = ''/sys''"
    by (auto simp: strncmp_eq_def)
  with root long have t: "trap_path n w (Str path) s = Some (Inr (Null, s\<lparr>errno := ENAMETOOLONG\<rparr>))"
    by (subst trap_path.simps) (auto simp: string_at_def Let_def add.commute)
  then show ?thesis
    by (simp add: WRAP_1ARG_def WRAP_2ARGS_def WRAP_3ARGS_def WRAP_VERSTAT_def)
qed

theorem trap_path_name_too_long_witness:
  "getenv long_root_world ''UMOCKDEV_DIR'' = Some (replicate 8188 (CHR ''a'')) \<and>
   length (replicate 8188 (CHR ''a'')) + length ''/sys'' \<ge> sizeof_buf \<and>
   trap_path 0 long_root_world (Str ''/sys'') start_proc =
     Some (Inr (Null, start_proc\<lparr>errno := ENAMETOOLONG\<rparr>)) \<and>
   WRAP_2ARGS 0 long_root_world (\<lambda>p (m :: int). (0 :: int, None)) (- 1) (Str ''/sys'') 0 start_proc =
     Some (Inr (- 1, start_proc\<lparr>errno := ENAMETOOLONG\<rparr>))"
proof -
  have h1: "getenv long_root_world ''UMOCKDEV_DIR'' = Some (replicate 8188 (CHR ''a''))"
    by (simp add: long_root_world_def)
  have h2: "''/sys'' = ''/dev'' \<or> take 5 ''/sys'' = ''/dev/'' \<or> ''/sys'' = ''/sys'' \<or>
      take 5 ''/sys'' = ''/sys/''" by simp
  have h3: "length (replicate 8188 (CHR ''a'')) + length ''/sys'' \<ge> sizeof_buf"
    by (simp add: sizeof_buf_def PATH_MAX_def)
  note t = trap_path_name_too_long [OF h1 h2 h3, where n = 0 and s = start_proc]
  show ?thesis
    by (intro conjI h1 h3 t [THEN conjunct1] t [THEN conjunct2, THEN conjunct2, THEN conjunct1])
qed

lemma strcpy_after_prefix [simp]:
  "strcpy_at (length prefix) src (strcpy_at 0 prefix old) = prefix @ src"
  by (simp add: strcpy_at_def)

lemma dev_shm_root: "getenv dev_shm_world ''UMOCKDEV_DIR'' = Some ''/dev/shm/tb''"
  by (simp add: dev_shm_world_def)

lemma dev_shm_marker_check_never_returns:
  "trap_buf s = ''/dev/shm/tb/disabled'' \<Longrightarrow> path_exists n dev_shm_world Static_buf s = None"
proof (induction n arbitrary: s)
  case 0
  show ?case by (simp add: path_exists.simps)
next
  case (Suc n)
  have "path_exists n dev_shm_world Static_buf (s\<lparr>trap_buf := ''/dev/shm/tb/disabled''\<rparr>) = None"
    by (rule Suc.IH) simp
  then have "trap_path n dev_shm_world Static_buf s = None"
    using Suc.prems
    by (subst trap_path.simps)
      (simp add: dev_shm_root string_at_def strncmp_eq_def sizeof_buf_def PATH_MAX_def Let_def
        strcpy_at_def)
  then show ?case
    by (simp add: path_exists.simps access.simps)
qed

text \<open>
  Claim C1 (shadow paths under \<^verbatim>\<open>/dev\<close>), where the code departs from it. With the testbed
  root \<^verbatim>\<open>/dev/shm/tb\<close>, \<open>trap_path\<close> on \<^verbatim>\<open>/dev/null\<close> does not return, whatever the fuel: the
  marker path \<^verbatim>\<open>/dev/shm/tb/disabled\<close> lies under \<^verbatim>\<open>/dev\<close> itself, so the \<^verbatim>\<open>access\<close> of
  \<open>path_exists\<close> traps it, composes the same marker path and checks it again, without end.
  The claim has the original path or the shadow path returned.
\<close>

theorem trap_path_root_under_dev_never_returns:
  "trap_path n dev_shm_world (Str ''/dev/null'') start_proc = None"
proof -
  have "path_exists n dev_shm_world Static_buf
      (start_proc\<lparr>trap_buf := ''/dev/shm/tb/disabled''\<rparr>) = None"
    by (rule dev_shm_marker_check_never_returns) simp
  then show ?thesis
    by (subst trap_path.simps)
      (simp add: dev_shm_root string_at_def strncmp_eq_def sizeof_buf_def PATH_MAX_def Let_def
        strcpy_at_def)
qed

lemma overrun_root: "getenv overrun_root_world ''UMOCKDEV_DIR'' = Some (replicate 8187 (CHR ''a''))"
  by (simp add: overrun_root_world_def)

lemma trap_path_marker_overruns_buffer:
  "trap_path n overrun_root_world (Str ''/dev'') s = Some (Inl Undefined_behaviour)"
  by (subst trap_path.simps)
    (simp add: overrun_root string_at_def strncmp_eq_def sizeof_buf_def PATH_MAX_def Let_def)


text \<open>
  What holds of \<open>trap_path\<close> on a path under \<^verbatim>\<open>/dev\<close>: when the marker path and the shadow
  path do not lie under \<^verbatim>\<open>/dev\<close> or \<^verbatim>\<open>/sys\<close> themselves and the marker path fits the buffer,
  it returns its buffer, holding \<open><root><path>\<close>, if the marker does not exist and the
  shadow path does, and its argument otherwise. A path that is not under \<^verbatim>\<open>/dev\<close> or
  \<^verbatim>\<open>/sys\<close> is returned as it is.
\<close>

lemma trap_path_other_paths:
  assumes "p \<noteq> Null" "\<not> under_dev_or_sys (string_at s p)"
  shows "trap_path n w p s = Some (Inr (p, s))"
  using assms
  by (subst trap_path.simps) (auto simp: under_dev_or_sys_def strncmp_eq_def split: option.splits)

lemma path_exists_other_paths:
  assumes "p \<noteq> Null" "\<not> under_dev_or_sys (string_at s p)"
  shows "path_exists (Suc n) w p s =
           Some (Inr (if fst (libc_access w (string_at s p)) then 0 else - 1, s))"
  using assms
  by (simp add: path_exists.simps access.simps trap_path_other_paths split: prod.splits)

lemma trap_path_dev_shadow:
  assumes dev: "path = ''/dev'' \<or> take 5 path = ''/dev/''"
    and root: "getenv w ''UMOCKDEV_DIR'' = Some root"
    and fits: "length root + length path < sizeof_buf"
    and marker_fits: "length root + length ''/disabled'' < sizeof_buf"
    and plain: "\<not> under_dev_or_sys (root @ ''/disabled'')" "\<not> under_dev_or_sys (root @ path)"
  shows "trap_path (Suc n) w (Str path) s =
           Some (Inr (if \<not> fst (libc_access w (root @ ''/disabled'')) \<and> fst (libc_access w (root @ path))
                      then Static_buf else Str path,
                      s\<lparr>trap_buf := (if fst (libc_access w (root @ ''/disabled''))
                                      then root @ ''/disabled'' else root @ path)\<rparr>))"
proof -
  from dev have d: "strncmp_eq path ''/dev/'' 5 \<or> path = ''/dev''"
    by (auto simp: strncmp_eq_def)
  define s1 where "s1 = s\<lparr>trap_buf := root @ ''/disabled''\<rparr>"
  define s3 where "s3 = s1\<lparr>trap_buf := root @ path\<rparr>"
  have m: "path_exists (Suc n) w Static_buf s1 =
      Some (Inr (if fst (libc_access w (root @ ''/disabled'')) then 0 else - 1, s1))"
    using path_exists_other_paths [of Static_buf s1 n w] plain(1)
    by (simp add: s1_def string_at_def)
  have sh: "path_exists (Suc n) w Static_buf s3 =
      Some (Inr (if fst (libc_access w (root @ path)) then 0 else - 1, s3))"
    using path_exists_other_paths [of Static_buf s3 n w] plain(2)
    by (simp add: s3_def string_at_def)
  have cp: "strcpy_at (length root) path (trap_buf s1) = root @ path"
    by (simp add: s1_def strcpy_at_def)
  have "trap_path (Suc n) w (Str path) s =
      (if fst (libc_access w (root @ ''/disabled'')) then Some (Inr (Str path, s1))
       else if fst (libc_access w (root @ path)) then Some (Inr (Static_buf, s3))
       else Some (Inr (Str path, s3)))"
    using root d fits marker_fits
    by (subst trap_path.simps)
      (simp add: string_at_def Let_def s1_def [symmetric] m cp s3_def [symmetric] sh)
  then show ?thesis by (simp add: s1_def s3_def)
qed


text \<open>
  With the empty string as root, the nested call of \<open>trap_path\<close> on the static buffer
  overwrites the shadow path with the marker path: the shadow path is never found, and
  \<open>trap_path\<close> returns its argument although \<^verbatim>\<open>/dev/null\<close> exists and no marker does.
\<close>

lemma empty_root: "getenv empty_root_world ''UMOCKDEV_DIR'' = Some []"
  by (simp add: empty_root_world_def)

lemma empty_root_access:
  "libc_access empty_root_world p = (if p = ''/dev/null'' then (True, None) else (False, Some 2))"
  by (simp add: empty_root_world_def)

lemma empty_root_marker_check:
  assumes "trap_buf s = ''/disabled''"
  shows "path_exists (Suc m) empty_root_world Static_buf s = Some (Inr (- 1, s))"
  using path_exists_other_paths [of Static_buf s m empty_root_world] assms
  by (simp add: string_at_def under_dev_or_sys_def empty_root_access)

lemma empty_root_nested_call:
  assumes "trap_buf s = ''/dev/null''"
  shows "trap_path (Suc m) empty_root_world Static_buf s =
           Some (Inr (Static_buf, s\<lparr>trap_buf := ''/disabled''\<rparr>))"
proof -
  have mk: "path_exists (Suc m) empty_root_world Static_buf (s\<lparr>trap_buf := ''/disabled''\<rparr>) =
      Some (Inr (- 1, s\<lparr>trap_buf := ''/disabled''\<rparr>))"
    by (rule empty_root_marker_check) simp
  show ?thesis
    using assms
    by (subst trap_path.simps)
      (simp add: empty_root string_at_def strncmp_eq_def sizeof_buf_def PATH_MAX_def Let_def
        strcpy_at_def mk)
qed

lemma trap_path_empty_root_returns_argument:
  "trap_path (Suc (Suc m)) empty_root_world (Str ''/dev/null'') s =
     Some (Inr (Str ''/dev/null'', s\<lparr>trap_buf := ''/disabled''\<rparr>))"
proof -
  have mk: "path_exists (Suc (Suc m)) empty_root_world Static_buf (s\<lparr>trap_buf := ''/disabled''\<rparr>) =
      Some (Inr (- 1, s\<lparr>trap_buf := ''/disabled''\<rparr>))"
    by (rule empty_root_marker_check) simp
  have nested: "trap_path (Suc m) empty_root_world Static_buf (s\<lparr>trap_buf := ''/dev/null''\<rparr>) =
      Some (Inr (Static_buf, s\<lparr>trap_buf := ''/disabled''\<rparr>))"
    using empty_root_nested_call [of "s\<lparr>trap_buf := ''/dev/null''\<rparr>" m] by simp
  have sh: "path_exists (Suc (Suc m)) empty_root_world Static_buf (s\<lparr>trap_buf := ''/dev/null''\<rparr>) =
      Some (Inr (- 1, s\<lparr>trap_buf := ''/disabled''\<rparr>))"
    by (simp add: path_exists.simps access.simps nested string_at_def empty_root_access Let_def)
  show ?thesis
    by (subst trap_path.simps)
      (simp add: empty_root string_at_def strncmp_eq_def sizeof_buf_def PATH_MAX_def Let_def
        strcpy_at_def mk sh)
qed


lemma example_root: "getenv example_world ''UMOCKDEV_DIR'' = Some ''/tmp/tb''"
  by (simp add: example_world_def)

lemma overflow_link_root: "getenv overflow_link_world ''UMOCKDEV_DIR'' = Some ''/tmp/tb''"
  by (simp add: overflow_link_world_def example_world_def)

lemma path_exists_keeps_errno:
  "path_exists n w p s = Some (Inr (r, s')) \<Longrightarrow> errno s' = errno s"
  by (cases n) (auto simp: path_exists.simps Let_def split: option.splits sum.splits prod.splits)

lemma dev_of_fd_keeps_errno: "snd (dev_of_fd w fd e) = e"
  by (simp add: dev_of_fd_def Let_def split: prod.splits option.splits)

text \<open>
  Claim C10 (probes leave \<open>errno\<close> alone), where the code departs from it. \<open>path_exists\<close>
  and \<open>dev_of_fd\<close> return with the \<open>errno\<close> they were entered with (the two lemmas above).
  \<open>get_rdev\<close> restores \<open>errno\<close> after \<^verbatim>\<open>readlink\<close> and calls \<^verbatim>\<open>sscanf\<close> after that: with
  the link text \<^verbatim>\<open>99999999999999999999:1\<close>, on which \<^verbatim>\<open>sscanf\<close> sets \<open>ERANGE\<close>,
  \<open>get_rdev\<close> is entered with \<open>errno\<close> 42 and returns with \<open>errno\<close> 34.
\<close>

theorem get_rdev_sscanf_sets_errno:
  "errno start_proc = 42 \<and>
   get_rdev n overflow_link_world [] ''ttyUSB0'' start_proc =
     Some (Inr ((makedev (- 1) 1, ''99999999999999999999:1''), start_proc\<lparr>errno := 34\<rparr>))"
proof -
  have t: "trap_path n overflow_link_world (Str ''/tmp/tb/dev/.node/ttyUSB0'') start_proc =
      Some (Inr (Str ''/tmp/tb/dev/.node/ttyUSB0'', start_proc))"
    by (rule trap_path_other_paths) (simp_all add: under_dev_or_sys_def string_at_def)
  have r: "libc_readlink overflow_link_world p = (Some ''99999999999999999999:1'', None)" for p
    by (simp add: overflow_link_world_def)
  have c: "libc_sscanf_ii overflow_link_world x = (Some (- 1, 1), Some 34)" for x
    by (simp add: overflow_link_world_def)
  have e: "errno start_proc = 42" by (simp add: start_proc_def)
  have "get_rdev n overflow_link_world [] ''ttyUSB0'' start_proc =
     Some (Inr ((makedev (- 1) 1, ''99999999999999999999:1''), start_proc\<lparr>errno := 34\<rparr>))"
    by (simp add: get_rdev_def overflow_link_root readlink_def WRAP_3ARGS_def t r c e string_at_def
        PATH_MAX_def readlink_into_def c_string_def errno_after_def Let_def)
  with e show ?thesis by simp
qed


section \<open>Properties of the device node classifier\<close>

lemma mode_bits_blk:
  fixes m :: mode_t
  assumes "m' = ((m AND NOT S_IFREG) AND NOT S_ISVTX) OR S_IFBLK"
  shows "m' AND S_IFREG = 0" "m' AND S_ISVTX = 0" "m' AND S_IFBLK = S_IFBLK"
  unfolding assms S_IFREG_def S_ISVTX_def S_IFBLK_def
  by (simp_all add: bit.conj_disj_distrib2 and.assoc)

lemma mode_bits_chr:
  fixes m :: mode_t
  assumes "m' = (m AND NOT S_IFREG) OR S_IFCHR"
  shows "m' AND S_IFREG = 0" "m' AND S_IFCHR = S_IFCHR"
  unfolding assms S_IFREG_def S_IFCHR_def
  by (simp_all add: bit.conj_disj_distrib2 and.assoc)

lemma sticky_after_clear:
  fixes m :: mode_t
  shows "(m AND NOT S_IFREG) AND S_ISVTX = m AND S_ISVTX"
  unfolding S_IFREG_def S_ISVTX_def
  by (simp add: and.assoc)



lemma readlink_other_paths:
  assumes "p \<noteq> Null" "\<not> under_dev_or_sys (string_at s p)"
  shows "readlink n w p bufsiz s =
     Some (Inr (map_option (take bufsiz) (fst (libc_readlink w (string_at s p))),
                s\<lparr>errno := errno_after (snd (libc_readlink w (string_at s p))) (errno s)\<rparr>))"
  using assms by (simp add: readlink_def WRAP_3ARGS_def trap_path_other_paths)

lemma is_emulated_device_classified:
  assumes cls: "(\<not> S_ISLNK mode \<and> \<not> S_ISDIR mode) \<or>
           (S_ISLNK mode \<and>
            (\<exists>target. fst (libc_readlink w (string_at s p)) = Some target \<and> take 5 target = ''/dev/''))"
    and plain: "p \<noteq> Null" "\<not> under_dev_or_sys (string_at s p)"
  shows "is_emulated_device n w p mode dest0 s = Some (Inr (True, s))"
proof (cases "S_ISLNK mode")
  case False
  with cls show ?thesis by (simp add: is_emulated_device_def)
next
  case True
  with cls obtain target where t: "fst (libc_readlink w (string_at s p)) = Some target"
    "take 5 target = ''/dev/''"
    by blast
  have "length (take 5 target) = 5" by (simp only: t(2)) simp
  then have len: "5 \<le> length target" by simp
  then have pre: "take 5 (readlink_into (take 10 target) dest0) = take 5 target"
    by (simp add: readlink_into_def min_def)
  from len have ne: "target \<noteq> []" by auto
  show ?thesis
    using True t pre ne
    by (simp add: is_emulated_device_def readlink_other_paths [OF plain] strncmp_eq_def Let_def)
qed

lemma get_rdev_other_paths:
  assumes root: "getenv w ''UMOCKDEV_DIR'' = Some root"
    and plain: "\<not> under_dev_or_sys
        (root @ ''/dev/.node/'' @ map (\<lambda>c. if c = CHR ''/'' then CHR ''_'' else c) nodename)"
  shows "\<exists>rdev link1 s'. get_rdev n w link0 nodename s = Some (Inr ((rdev, link1), s'))"
proof -
  have "string_at s (Str (root @ ''/dev/.node/'' @
      map (\<lambda>c. if c = CHR ''/'' then CHR ''_'' else c) nodename)) =
      root @ ''/dev/.node/'' @ map (\<lambda>c. if c = CHR ''/'' then CHR ''_'' else c) nodename"
    by (simp add: string_at_def)
  with plain have r: "readlink n w (Str (root @ ''/dev/.node/'' @
      map (\<lambda>c. if c = CHR ''/'' then CHR ''_'' else c) nodename)) PATH_MAX s =
      Some (Inr (map_option (take PATH_MAX) (fst (libc_readlink w (root @ ''/dev/.node/'' @
          map (\<lambda>c. if c = CHR ''/'' then CHR ''_'' else c) nodename))),
        s\<lparr>errno := errno_after (snd (libc_readlink w (root @ ''/dev/.node/'' @
          map (\<lambda>c. if c = CHR ''/'' then CHR ''_'' else c) nodename))) (errno s)\<rparr>))"
    by (subst readlink_other_paths) simp_all
  show ?thesis
    unfolding get_rdev_def root option.case Let_def r
    by (auto split: option.splits prod.splits)
qed

text \<open>
  What holds of the four wrappers made from \<^verbatim>\<open>WRAP_VERSTAT\<close>: on a path below \<^verbatim>\<open>/dev/\<close>
  that is redirected to its shadow path, where the C library's function returns 0 and
  reports a mode that is no symlink and no directory, or a symlink whose text begins with
  \<^verbatim>\<open>/dev/\<close>, the wrapper returns 0, and in the mode it reports the regular-file bit is clear;
  if the sticky bit was set, it is clear and the block-device bits are set; otherwise the
  char-device bit is set.
\<close>

lemma verstat_emulated_device_mode:
  assumes dev: "take 5 path = ''/dev/''"
    and root: "getenv w ''UMOCKDEV_DIR'' = Some root"
    and fits: "length root + length path < sizeof_buf"
      "length root + length ''/disabled'' < sizeof_buf"
    and plain: "\<not> under_dev_or_sys (root @ ''/disabled'')" "\<not> under_dev_or_sys (root @ path)"
      "\<not> under_dev_or_sys
        (root @ ''/dev/.node/'' @ map (\<lambda>c. if c = CHR ''/'' then CHR ''_'' else c) (drop 5 path))"
    and shadow: "\<not> fst (libc_access w (root @ ''/disabled''))" "fst (libc_access w (root @ path))"
    and real: "fst (fn ver (root @ path) st) = (0, st1)"
    and cls: "(\<not> S_ISLNK (st_mode st1) \<and> \<not> S_ISDIR (st_mode st1)) \<or>
              (S_ISLNK (st_mode st1) \<and>
               (\<exists>target. fst (libc_readlink w (root @ path)) = Some target \<and> take 5 target = ''/dev/''))"
  shows "\<exists>st' link1 s'. WRAP_VERSTAT (Suc n) w fn ver (Str path) st link0 dest0 s =
             Some (Inr (((0, st'), link1), s')) \<and>
           st_mode st' AND S_IFREG = 0 \<and>
           (if st_mode st1 AND S_ISVTX \<noteq> 0
            then st_mode st' = ((st_mode st1 AND NOT S_IFREG) AND NOT S_ISVTX) OR S_IFBLK \<and>
                 st_mode st' AND S_ISVTX = 0 \<and> st_mode st' AND S_IFBLK = S_IFBLK
            else st_mode st' = (st_mode st1 AND NOT S_IFREG) OR S_IFCHR \<and>
                 st_mode st' AND S_IFCHR = S_IFCHR)"
proof -
  define s1 where "s1 = s\<lparr>trap_buf := root @ path\<rparr>"
  have tp: "trap_path (Suc n) w (Str path) s = Some (Inr (Static_buf, s1))"
    using trap_path_dev_shadow [OF _ root fits plain(1,2), of n s] dev shadow
    by (simp add: s1_def)
  obtain u where rl: "fn ver (root @ path) st = ((0, st1), u)"
    using real by (cases "fn ver (root @ path) st") simp
  define s2 where "s2 = s1\<lparr>errno := errno_after u (errno s1)\<rparr>"
  have sa: "string_at s1 Static_buf = root @ path" "string_at s2 Static_buf = root @ path"
    "string_at s2 (Str path) = path"
    by (simp_all add: string_at_def s1_def s2_def)
  have emu: "is_emulated_device (Suc n) w Static_buf (st_mode st1) dest0 s2 = Some (Inr (True, s2))"
    by (rule is_emulated_device_classified) (use cls plain(2) sa in simp_all)
  define m1 where "m1 = st_mode st1 AND NOT S_IFREG"
  define m2 where "m2 = (if m1 AND S_ISVTX \<noteq> 0 then (m1 AND NOT S_ISVTX) OR S_IFBLK else m1 OR S_IFCHR)"
  obtain rdev link1 s4 where gr: "get_rdev (Suc n) w link0 (drop 5 path) s2 = Some (Inr ((rdev, link1), s4))"
    using get_rdev_other_paths [OF root plain(3)] by blast
  have run: "WRAP_VERSTAT (Suc n) w fn ver (Str path) st link0 dest0 s =
      Some (Inr (((0, st1\<lparr>st_mode := m2, st_rdev := rdev\<rparr>), link1), s4))"
    using dev
    by (simp add: WRAP_VERSTAT_def tp sa rl s2_def [symmetric] emu gr strncmp_eq_def Let_def
        m1_def [symmetric] m2_def [symmetric])
  have st: "m1 AND S_ISVTX = st_mode st1 AND S_ISVTX"
    by (simp add: m1_def sticky_after_clear)
  show ?thesis
  proof (cases "st_mode st1 AND S_ISVTX \<noteq> 0")
    case True
    then have m2: "m2 = ((st_mode st1 AND NOT S_IFREG) AND NOT S_ISVTX) OR S_IFBLK"
      by (simp add: m2_def st) (simp add: m1_def)
    from mode_bits_blk [OF m2] m2 True run show ?thesis by simp
  next
    case False
    then have m2: "m2 = (st_mode st1 AND NOT S_IFREG) OR S_IFCHR"
      by (simp add: m2_def st) (simp add: m1_def)
    from mode_bits_chr [OF m2] m2 False run show ?thesis by simp
  qed
qed


text \<open>
  Claim C3 (device typing), where the code departs from it. \<^verbatim>\<open>stat\<close>, \<^verbatim>\<open>stat64\<close>,
  \<^verbatim>\<open>lstat\<close> and \<^verbatim>\<open>lstat64\<close> are made from \<^verbatim>\<open>WRAP_2ARGS\<close>: they redirect the path and
  return what the C library reports. For the shadow file of \<^verbatim>\<open>/dev/ttyUSB0\<close>, a regular
  file with the sticky bit, \<open>stat\<close> returns 0 with the mode 0101644 unchanged, where
  \<^verbatim>\<open>__xstat\<close> on the same path reports the block device 060644.
\<close>

theorem stat_leaves_emulated_device_mode:
  "stat (Suc n) example_world sticky_file_stat (Str ''/dev/ttyUSB0'') \<lparr>st_mode = 0, st_rdev = 0\<rparr>
       start_proc =
     Some (Inr ((0, \<lparr>st_mode = 0x83A4, st_rdev = 0\<rparr>),
                start_proc\<lparr>trap_buf := ''/tmp/tb/dev/ttyUSB0''\<rparr>)) \<and>
   WRAP_VERSTAT (Suc n) example_world sticky_file_xstat 1 (Str ''/dev/ttyUSB0'')
       \<lparr>st_mode = 0, st_rdev = 0\<rparr> [] [] start_proc =
     Some (Inr (((0, \<lparr>st_mode = 0x61A4, st_rdev = 0\<rparr>), []),
                start_proc\<lparr>trap_buf := ''/tmp/tb/dev/ttyUSB0''\<rparr>))"
proof -
  define s1 where "s1 = start_proc\<lparr>trap_buf := ''/tmp/tb/dev/ttyUSB0''\<rparr>"
  have a: "fst (libc_access example_world (''/tmp/tb'' @ ''/dev/ttyUSB0''))"
    "\<not> fst (libc_access example_world (''/tmp/tb'' @ ''/disabled''))"
    by (simp_all add: example_world_def)
  have t: "trap_path (Suc n) example_world (Str ''/dev/ttyUSB0'') start_proc =
      Some (Inr (Static_buf, s1))"
    using trap_path_dev_shadow [OF _ example_root, of "''/dev/ttyUSB0''" n start_proc] a
    by (simp add: sizeof_buf_def PATH_MAX_def under_dev_or_sys_def s1_def)
  have plain: "stat (Suc n) example_world sticky_file_stat (Str ''/dev/ttyUSB0'')
      \<lparr>st_mode = 0, st_rdev = 0\<rparr> start_proc = Some (Inr ((0, \<lparr>st_mode = 0x83A4, st_rdev = 0\<rparr>), s1))"
    by (simp add: stat_def WRAP_2ARGS_def t sticky_file_stat_def errno_after_def)
  have node: "trap_path (Suc n) example_world (Str ''/tmp/tb/dev/.node/ttyUSB0'') s1 =
      Some (Inr (Str ''/tmp/tb/dev/.node/ttyUSB0'', s1))"
    by (rule trap_path_other_paths) (simp_all add: under_dev_or_sys_def string_at_def)
  have rl: "libc_readlink example_world p = (None, Some 2)" for p
    by (simp add: example_world_def)
  have g: "get_rdev (Suc n) example_world [] ''ttyUSB0'' s1 = Some (Inr ((0, []), s1))"
    by (simp add: get_rdev_def example_root readlink_def WRAP_3ARGS_def node rl string_at_def
        errno_after_def Let_def)
  have m: "\<not> S_ISLNK 0x83A4" "\<not> S_ISDIR 0x83A4"
    "(if ((0x83A4 :: mode_t) AND NOT S_IFREG) AND S_ISVTX \<noteq> 0
      then (((0x83A4 :: mode_t) AND NOT S_IFREG) AND NOT S_ISVTX) OR S_IFBLK
      else ((0x83A4 :: mode_t) AND NOT S_IFREG) OR S_IFCHR) = 0x61A4"
    by (simp_all add: S_ISLNK_def S_ISDIR_def S_IFMT_def S_IFLNK_def S_IFDIR_def S_IFREG_def
        S_ISVTX_def S_IFBLK_def S_IFCHR_def)
  have sa: "string_at s1 Static_buf = ''/tmp/tb/dev/ttyUSB0''"
    "string_at s1 (Str ''/dev/ttyUSB0'') = ''/dev/ttyUSB0''"
    by (simp_all add: string_at_def s1_def)
  have ver: "WRAP_VERSTAT (Suc n) example_world sticky_file_xstat 1 (Str ''/dev/ttyUSB0'')
       \<lparr>st_mode = 0, st_rdev = 0\<rparr> [] [] start_proc =
     Some (Inr (((0, \<lparr>st_mode = 0x61A4, st_rdev = 0\<rparr>), []), s1))"
    using m
    by (simp add: WRAP_VERSTAT_def t sticky_file_xstat_def errno_after_def is_emulated_device_def
        strncmp_eq_def sa g Let_def)
  from plain ver show ?thesis by (simp add: s1_def)
qed


section \<open>Properties of the netlink wrappers\<close>





text \<open>
  The two cases that the theorem leaves out. With a \<open>NULL\<close> \<open>msg_name\<close> the wrapper writes
  through the null pointer. The control messages behind the first are returned as the C
  library reported them, a credentials block among them with the uid of the sender.
\<close>

lemma recvmsg_null_msg_name:
  assumes "real_recvmsg sockfd msg flags = (ret, msg1)"
    and "fst (fd_map_get wrapped_sockets sockfd) \<noteq> 0" "ret > 0" "msg_name msg1 = None"
  shows "recvmsg wrapped_sockets real_recvmsg sockfd msg flags = Inl Undefined_behaviour"
  using assms by (simp add: recvmsg_def)

lemma recvmsg_keeps_later_control_messages:
  assumes "real_recvmsg sockfd msg flags = (ret, msg1)"
    and "recvmsg wrapped_sockets real_recvmsg sockfd msg flags = Inr (r, msg')"
  shows "more_control msg' = more_control msg1"
  using assms by (auto simp: recvmsg_def Let_def split: if_splits option.splits)

section \<open>Properties of the ioctl wrappers\<close>

text \<open>
  Claim C2, as amended (replay). For a descriptor registered with a loaded tree: when
  \<open>ioctl_tree_execute\<close> returns a node and stores a recorded result other than -2, \<open>ioctl\<close>
  returns that result, the cursor \<open>last\<close> becomes the node and the list of calls to the C
  library's \<^verbatim>\<open>ioctl\<close> is unchanged; when it returns \<open>NULL\<close> and stores nothing, \<open>ioctl\<close>
  calls the C library's \<^verbatim>\<open>ioctl\<close> once and returns its result, the cursor unchanged.
  (The last hypothesis holds in every state the library reaches: a recorded descriptor has
  an open record file.)
\<close>

theorem ioctl_replay:
  assumes reg: "fd_map_get (ioctl_wrapped_fds s) d = (found, fdinfo)" "found \<noteq> 0"
    and info: "fdinfo_heap s fdinfo = Some info"
    and loaded: "tree info \<noteq> NULL"
    and exec: "ioctl_tree_execute env (mem s) (tree info) (last info) request arg = ((node, written), h)"
    and inv: "ioctl_record_fd s = d \<longrightarrow> ioctl_record_log s \<noteq> None"
  shows "(node \<noteq> NULL \<and> written = Some z \<and> z \<noteq> - 2 \<longrightarrow>
            ioctl env s d request arg =
              Inr (z, s\<lparr>mem := h,
                         fdinfo_heap := (fdinfo_heap s)(fdinfo := Some (info\<lparr>last := node\<rparr>))\<rparr>)) \<and>
         (node = NULL \<and> written = None \<longrightarrow>
            (\<exists>s'. ioctl env s d request arg = Inr (fst (libc_ioctl env h d request arg), s') \<and>
                  real_ioctl_calls s' = real_ioctl_calls s @ [(d, request, arg)] \<and>
                  fdinfo_heap s' = fdinfo_heap s))"
proof (intro conjI impI)
  assume "node \<noteq> NULL \<and> written = Some z \<and> z \<noteq> - 2"
  with reg info exec show "ioctl env s d request arg =
      Inr (z, s\<lparr>mem := h, fdinfo_heap := (fdinfo_heap s)(fdinfo := Some (info\<lparr>last := node\<rparr>))\<rparr>)"
    by (simp add: ioctl_def ioctl_emulate_def Let_def)
next
  assume a: "node = NULL \<and> written = None"
  with reg info exec have emu: "ioctl_emulate env s d request arg = Inr (- 2, s\<lparr>mem := h\<rparr>)"
    by (simp add: ioctl_emulate_def Let_def)
  obtain r h' where real: "libc_ioctl env h d request arg = (r, h')"
    by (cases "libc_ioctl env h d request arg") auto
  define s2 where "s2 = s\<lparr>mem := h', real_ioctl_calls := real_ioctl_calls s @ [(d, request, arg)]\<rparr>"
  show "\<exists>s'. ioctl env s d request arg = Inr (fst (libc_ioctl env h d request arg), s') \<and>
        real_ioctl_calls s' = real_ioctl_calls s @ [(d, request, arg)] \<and>
        fdinfo_heap s' = fdinfo_heap s"
  proof (cases "r \<noteq> - 1 \<and> ioctl_record_fd s = d")
    case False
    then have "ioctl env s d request arg = Inr (r, s2)"
      using emu real by (auto simp: ioctl_def Let_def s2_def)
    then show ?thesis using real by (simp add: s2_def)
  next
    case True
    with inv obtain lg where lg: "ioctl_record_log s2 = Some lg" by (auto simp: s2_def)
    obtain n h1 where nb: "ioctl_tree_new_from_bin env (mem s2) request arg r = (n, h1)"
      by (cases "ioctl_tree_new_from_bin env (mem s2) request arg r") auto
    obtain s3 where rec: "record_ioctl env s2 request arg r = Inr s3"
      and keep: "real_ioctl_calls s3 = real_ioctl_calls s2" "fdinfo_heap s3 = fdinfo_heap s2"
    proof (cases "n = NULL")
      case True
      with lg nb have "record_ioctl env s2 request arg r = Inr (s2\<lparr>mem := h1\<rparr>)"
        by (simp add: record_ioctl_def)
      then show ?thesis by (rule that) simp_all
    next
      case False
      with lg nb have "record_ioctl env s2 request arg r =
          Inr (s2\<lparr>mem := ioctl_tree_insert env h1 (ioctl_record s2) n,
                    ioctl_record := (if ioctl_record s2 = NULL then n else ioctl_record s2)\<rparr>)"
        by (simp add: record_ioctl_def Let_def)
      then show ?thesis by (rule that) simp_all
    qed
    have "ioctl env s d request arg = Inr (r, s3)"
      using emu real True rec by (simp add: ioctl_def Let_def s2_def)
    then show ?thesis using real keep by (simp add: s2_def)
  qed
qed

text \<open>
  The claim as first stated covers every recorded result. -2 is the value by which
  \<open>ioctl_emulate\<close> says "unhandled": on a match whose recorded result is -2 the cursor
  advances, and \<open>ioctl\<close> still calls the C library's \<^verbatim>\<open>ioctl\<close> and returns its result.
\<close>

theorem ioctl_replay_sentinel_counterexample:
  "fd_map_get (ioctl_wrapped_fds replay_example_state) 5 = (1, 1) \<and>
   fdinfo_heap replay_example_state 1 = Some \<lparr>tree = 10, last = NULL\<rparr> \<and>
   ioctl_tree_execute (replay_example_env (- 2)) () 10 NULL 1 0 = ((10, Some (- 2)), ()) \<and>
   ioctl (replay_example_env (- 2)) replay_example_state 5 1 0 =
     Inr (0, replay_example_state\<lparr>
       fdinfo_heap := (fdinfo_heap replay_example_state)(1 := Some \<lparr>tree = 10, last = 10\<rparr>),
       real_ioctl_calls := [(5, 1, 0)]\<rparr>)"
proof -
  have h: "fd_map_get (ioctl_wrapped_fds replay_example_state) 5 = (1, 1)" by code_simp
  have i: "fdinfo_heap replay_example_state 1 = Some \<lparr>tree = 10, last = NULL\<rparr>"
    "mem replay_example_state = ()" "ioctl_record_fd replay_example_state = - 1"
    "real_ioctl_calls replay_example_state = []"
    by (simp_all add: replay_example_state_def)
  have x: "ioctl_tree_execute (replay_example_env (- 2)) () 10 NULL 1 0 = ((10, Some (- 2)), ())"
    "libc_ioctl (replay_example_env (- 2)) () 5 1 0 = (0, ())"
    by (simp_all add: replay_example_env_def)
  have e: "ioctl_emulate (replay_example_env (- 2)) replay_example_state 5 1 0 =
      Inr (- 2, replay_example_state\<lparr>
        fdinfo_heap := (fdinfo_heap replay_example_state)(1 := Some \<lparr>tree = 10, last = 10\<rparr>)\<rparr>)"
    using h i x by (simp add: ioctl_emulate_def NULL_def Let_def)
  have "ioctl (replay_example_env (- 2)) replay_example_state 5 1 0 =
     Inr (0, replay_example_state\<lparr>
       fdinfo_heap := (fdinfo_heap replay_example_state)(1 := Some \<lparr>tree = 10, last = 10\<rparr>),
       real_ioctl_calls := [(5, 1, 0)]\<rparr>)"
    using i x by (simp add: ioctl_def e Let_def)
  with h i x show ?thesis by simp
qed


theorem ioctl_replay_witness:
  "fd_map_get (ioctl_wrapped_fds replay_example_state) 5 = (1, 1) \<and>
   fdinfo_heap replay_example_state 1 = Some \<lparr>tree = 10, last = NULL\<rparr> \<and>
   ioctl_tree_execute (replay_example_env 7) () 10 NULL 1 0 = ((10, Some 7), ()) \<and>
   ioctl (replay_example_env 7) replay_example_state 5 1 0 =
     Inr (7, replay_example_state\<lparr>
       fdinfo_heap := (fdinfo_heap replay_example_state)(1 := Some \<lparr>tree = 10, last = 10\<rparr>)\<rparr>) \<and>
   ioctl_tree_execute (replay_example_env 7) () 10 NULL 2 0 = ((NULL, None), ()) \<and>
   (\<exists>s'. ioctl (replay_example_env 7) replay_example_state 5 2 0 = Inr (0, s') \<and>
         real_ioctl_calls s' = [(5, 2, 0)])"
proof -
  have h: "fd_map_get (ioctl_wrapped_fds replay_example_state) 5 = (1, 1)" by code_simp
  have i: "fdinfo_heap replay_example_state 1 = Some \<lparr>tree = 10, last = NULL\<rparr>"
    "mem replay_example_state = ()" "real_ioctl_calls replay_example_state = []"
    by (simp_all add: replay_example_state_def)
  have l: "tree \<lparr>tree = 10, last = NULL\<rparr> \<noteq> NULL" by (simp add: NULL_def)
  have v: "ioctl_record_fd replay_example_state = 5 \<longrightarrow> ioctl_record_log replay_example_state \<noteq> None"
    by (simp add: replay_example_state_def)
  have x1: "ioctl_tree_execute (replay_example_env 7) (mem replay_example_state)
      (tree \<lparr>tree = 10, last = NULL\<rparr>) (last \<lparr>tree = 10, last = NULL\<rparr>) 1 0 = ((10, Some 7), ())"
    by (simp add: replay_example_env_def)
  have x2: "ioctl_tree_execute (replay_example_env 7) (mem replay_example_state)
      (tree \<lparr>tree = 10, last = NULL\<rparr>) (last \<lparr>tree = 10, last = NULL\<rparr>) 2 0 = ((NULL, None), ())"
    by (simp add: replay_example_env_def)
  have r: "libc_ioctl (replay_example_env 7) () 5 2 0 = (0, ())"
    by (simp add: replay_example_env_def)
  have one: "(1 :: int) \<noteq> 0" by simp
  note m = ioctl_replay [where z = 7, OF h one i(1) l x1 v, THEN conjunct1]
  note u = ioctl_replay [OF h one i(1) l x2 v, THEN conjunct2]
  from m have m': "ioctl (replay_example_env 7) replay_example_state 5 1 0 =
     Inr (7, replay_example_state\<lparr>
       fdinfo_heap := (fdinfo_heap replay_example_state)(1 := Some \<lparr>tree = 10, last = 10\<rparr>)\<rparr>)"
    using i by (simp add: NULL_def)
  from u r i have u': "\<exists>s'. ioctl (replay_example_env 7) replay_example_state 5 2 0 = Inr (0, s') \<and>
         real_ioctl_calls s' = [(5, 2, 0)]"
    by auto
  from h i x1 x2 m' u' show ?thesis by simp
qed

text \<open>
  Claim C9 (a second open takes the recording over). With a recording session active on
  some descriptor (the record file open, the target device number read from the
  environment and not 0), \<open>ioctl_record_open\<close> on a new descriptor whose device number
  is the target returns normally and changes \<open>ioctl_record_fd\<close> to the new descriptor and
  nothing else: the tree recorded so far stays in memory, the record file stays open and
  nothing is written to it. No check stands in the way: the session of the previous
  descriptor ends without \<open>ioctl_record_close\<close>.
\<close>

theorem ioctl_record_open_reassigns:
  assumes active: "0 \<le> ioctl_record_fd s" "ioctl_record_log s \<noteq> None"
    and target: "record_rdev s \<noteq> - 1" "record_rdev s \<noteq> 0"
    and opened: "0 \<le> fd"
    and same: "fst (dev_of_fd w fd e) = record_rdev s"
  shows "ioctl_record_open w env s fd e = Inr (s\<lparr>ioctl_record_fd := fd\<rparr>) \<and>
         record_file_writes (s\<lparr>ioctl_record_fd := fd\<rparr>) = record_file_writes s \<and>
         ioctl_record_log (s\<lparr>ioctl_record_fd := fd\<rparr>) = ioctl_record_log s \<and>
         ioctl_record (s\<lparr>ioctl_record_fd := fd\<rparr>) = ioctl_record s"
  using assms by (auto simp: ioctl_record_open_def Let_def)

theorem ioctl_record_open_reassigns_witness:
  "0 \<le> ioctl_record_fd record_example_state \<and>
   ioctl_record_log record_example_state \<noteq> None \<and>
   record_rdev record_example_state \<noteq> - 1 \<and> record_rdev record_example_state \<noteq> 0 \<and>
   fst (dev_of_fd record_example_world 7 0) = record_rdev record_example_state \<and>
   ioctl_record_fd record_example_state = 4 \<and>
   ioctl_record_open record_example_world (replay_example_env 0) record_example_state 7 0 =
     Inr (record_example_state\<lparr>ioctl_record_fd := 7\<rparr>)"
proof -
  have h1: "0 \<le> ioctl_record_fd record_example_state" "ioctl_record_log record_example_state \<noteq> None"
    "record_rdev record_example_state \<noteq> - 1" "record_rdev record_example_state \<noteq> 0"
    "ioctl_record_fd record_example_state = 4"
    by (simp_all add: record_example_state_def)
  have h2: "(0 :: int) \<le> 7" by simp
  have h3: "fst (dev_of_fd record_example_world 7 0) = record_rdev record_example_state"
    by (simp add: dev_of_fd_def record_example_world_def record_example_state_def S_ISCHR_def
        S_ISBLK_def S_IFMT_def S_IFCHR_def S_IFBLK_def)
  from ioctl_record_open_reassigns [OF h1(1-4) h2 h3, of "replay_example_env 0"] h1 h3
  show ?thesis by simp
qed

end
